theory Spec2Isabelle
  imports Main
begin

section \<open>JavaScript values\<close>

text \<open>
  Several fields of the program are typed \<open>any\<close> (\<open>data\<close>, \<open>options\<close>,
  \<open>budget_allocation\<close>, the answer \<open>value\<close>): they hold whatever \<open>JSON.parse\<close>
  produced, or what the page passes in. They are modelled by JSON-shaped values.
  Numbers are the integers (the program only counts and indexes with them); text is kept
  as its UTF-8 bytes, on which \<open>split('\n')\<close>, \<open>startsWith('data: ')\<close>, \<open>slice(6)\<close>
  after that prefix and \<open>includes\<close> of an ASCII word act as they do on the code units.
\<close>

datatype jsval =
    JUndefined
  | JNull
  | JBool bool
  | JNum int
  | JStr string
  | JArr "jsval list"
  | JObj "(string \<times> jsval) list"

text \<open>Truthiness, as \<open>||\<close>, \<open>&&\<close>, \<open>!\<close> and \<open>if\<close> test it.\<close>

fun truthy :: "jsval \<Rightarrow> bool" where
  "truthy JUndefined = False"
| "truthy JNull = False"
| "truthy (JBool b) = b"
| "truthy (JNum n) = (n \<noteq> 0)"
| "truthy (JStr s) = (s \<noteq> [])"
| "truthy (JArr xs) = True"
| "truthy (JObj kvs) = True"

text \<open>A field typed \<open>string | undefined\<close> (or \<open>string | null\<close>) is a \<open>string option\<close>;
  it is truthy when present and not empty.\<close>

fun truthy_str :: "string option \<Rightarrow> bool" where
  "truthy_str None = False"
| "truthy_str (Some s) = (s \<noteq> [])"

text \<open>\<open>x || dflt\<close> on such a field.\<close>

definition str_or :: "string option \<Rightarrow> string \<Rightarrow> string" where
  "str_or x dflt = (if truthy_str x then the x else dflt)"

text \<open>\<open>v?.k\<close>: an own property of an object, \<open>undefined\<close> on everything else
  (\<open>null\<close> and \<open>undefined\<close> by the optional chaining; numbers, strings, booleans and
  arrays because they have no property of the names read here, \<open>season\<close> and \<open>name\<close>).\<close>

fun js_get :: "jsval \<Rightarrow> string \<Rightarrow> jsval" where
  "js_get (JObj kvs) k = (case map_of kvs k of Some v \<Rightarrow> v | None \<Rightarrow> JUndefined)"
| "js_get _ k = JUndefined"

fun digit_char :: "nat \<Rightarrow> char" where
  "digit_char n = ''0123456789'' ! (n mod 10)"

fun show_nat :: "nat \<Rightarrow> string" where
  "show_nat n = (if n < 10 then [digit_char n] else show_nat (n div 10) @ [digit_char (n mod 10)])"

declare show_nat.simps [simp del]

fun join_comma :: "string list \<Rightarrow> string" where
  "join_comma [] = []"
| "join_comma [s] = s"
| "join_comma (s # t # ss) = s @ '','' @ join_comma (t # ss)"

text \<open>String conversion, as the template literal \<open>`Option ${value}`\<close> and \<open>String(value)\<close>
  do it.\<close>

fun js_to_string :: "jsval \<Rightarrow> string" where
  "js_to_string JUndefined = ''undefined''"
| "js_to_string JNull = ''null''"
| "js_to_string (JBool b) = (if b then ''true'' else ''false'')"
| "js_to_string (JNum n) = (if n < 0 then ''-'' @ show_nat (nat (- n)) else show_nat (nat n))"
| "js_to_string (JStr s) = s"
| "js_to_string (JArr xs) =
     join_comma (map (\<lambda>x. if x = JNull \<or> x = JUndefined then [] else js_to_string x) xs)"
| "js_to_string (JObj kvs) = ''[object Object]''"

text \<open>
  \<open>options?.[value]\<close>: the element of an array at a key. A number addresses its
  position, a string the position it is the decimal numeral of, or the array's length;
  any other key finds nothing. (The inherited members of arrays, such as \<open>map\<close>, are
  left out: the page answers a selection with the position of the button pressed.)
\<close>

fun js_elem :: "jsval list \<Rightarrow> jsval \<Rightarrow> jsval" where
  "js_elem xs (JNum n) = (if 0 \<le> n \<and> nat n < length xs then xs ! nat n else JUndefined)"
| "js_elem xs (JStr k) =
     (if k = ''length'' then JNum (int (length xs))
      else (case find (\<lambda>i. show_nat i = k) [0..<length xs] of
              Some i \<Rightarrow> xs ! i
            | None \<Rightarrow> JUndefined))"
| "js_elem xs v = JUndefined"

definition startsWith :: "string \<Rightarrow> string \<Rightarrow> bool" where
  "startsWith s p = (take (length p) s = p)"

text \<open>
  \<open>s.trim()\<close> removes, at both ends, every white space character and line terminator
  of the language: U+0009 to U+000D, U+0020, U+00A0, U+1680, U+2000 to U+200A, U+2028,
  U+2029, U+202F, U+205F, U+3000 and U+FEFF. Text being kept as UTF-8, each is the byte
  sequence that encodes it; at the end of the text the sequences are matched backwards.
\<close>

definition js_whitespace :: "string list" where
  "js_whitespace =
     [[CHR 0x09], [CHR 0x0A], [CHR 0x0B], [CHR 0x0C], [CHR 0x0D], [CHR 0x20],
      [CHR 0xC2, CHR 0xA0],
      [CHR 0xE1, CHR 0x9A, CHR 0x80],
      [CHR 0xE2, CHR 0x80, CHR 0x80], [CHR 0xE2, CHR 0x80, CHR 0x81],
      [CHR 0xE2, CHR 0x80, CHR 0x82], [CHR 0xE2, CHR 0x80, CHR 0x83],
      [CHR 0xE2, CHR 0x80, CHR 0x84], [CHR 0xE2, CHR 0x80, CHR 0x85],
      [CHR 0xE2, CHR 0x80, CHR 0x86], [CHR 0xE2, CHR 0x80, CHR 0x87],
      [CHR 0xE2, CHR 0x80, CHR 0x88], [CHR 0xE2, CHR 0x80, CHR 0x89],
      [CHR 0xE2, CHR 0x80, CHR 0x8A],
      [CHR 0xE2, CHR 0x80, CHR 0xA8], [CHR 0xE2, CHR 0x80, CHR 0xA9],
      [CHR 0xE2, CHR 0x80, CHR 0xAF],
      [CHR 0xE2, CHR 0x81, CHR 0x9F],
      [CHR 0xE3, CHR 0x80, CHR 0x80],
      [CHR 0xEF, CHR 0xBB, CHR 0xBF]]"

text \<open>Removing, from the front, every leading occurrence of one of the sequences.\<close>

fun strip_leading :: "string list \<Rightarrow> string \<Rightarrow> string" where
  "strip_leading ws [] = []"
| "strip_leading ws (c # cs) =
     (case find (\<lambda>w. w \<noteq> [] \<and> startsWith (c # cs) w) ws of
        None \<Rightarrow> c # cs
      | Some w \<Rightarrow> strip_leading ws (drop (length w - 1) cs))"

definition js_trim :: "string \<Rightarrow> string" where
  "js_trim s = rev (strip_leading (map rev js_whitespace) (rev (strip_leading js_whitespace s)))"

fun js_includes :: "string \<Rightarrow> string \<Rightarrow> bool" where
  "js_includes [] p = (p = [])"
| "js_includes (c # cs) p = (startsWith (c # cs) p \<or> js_includes cs p)"

text \<open>\<open>s.split('\n')\<close>: the pieces between line feeds; never an empty array.\<close>

fun js_split_nl :: "string \<Rightarrow> string list" where
  "js_split_nl [] = [[]]"
| "js_split_nl (c # cs) =
     (if c = CHR 0x0A then [] # js_split_nl cs
      else (case js_split_nl cs of [] \<Rightarrow> [[c]] | l # ls \<Rightarrow> (c # l) # ls))"


section \<open>api.ts\<close>

text \<open>The interface \<open>StreamEvent\<close>. A field declared with \<open>?\<close> is an option; the
  fields typed \<open>any\<close> are \<open>jsval\<close>, \<open>JUndefined\<close> when absent. What \<open>JSON.parse\<close>
  returns is taken to be of this interface, as the generators declare; the properties of
  a parsed object that the interface does not name are not kept.\<close>

record StreamEvent =
  ev_type :: string
  ev_step :: "string option"
  ev_content :: "string option"
  ev_conversation_id :: "string option"
  ev_data :: jsval
  ev_interrupt_type :: "string option"
  ev_question :: "string option"
  ev_field :: "string option"
  ev_options :: "jsval list option"
  ev_missing_info :: "string list option"
  ev_budget_allocation :: jsval

text \<open>A chunk that \<open>reader.read()\<close> delivers: a \<open>Uint8Array\<close>.\<close>

type_synonym chunk = "char list"

text \<open>What the generator does that its consumer or the console sees: a \<open>yield\<close>, or
  the \<open>console.error\<close> of the \<open>catch\<close> around \<open>JSON.parse\<close>.\<close>

datatype 'e emitted = Yield 'e | ConsoleError string

text \<open>What a generator or a handler can throw.\<close>

datatype js_error = FetchRejected | HttpError nat | NoReader | ReadRejected

text \<open>The response of \<open>fetch\<close>: \<open>response.ok\<close>, \<open>response.status\<close> and
  \<open>response.body\<close> (absent when null). A body is the chunks its reader delivers and
  how the reads end: \<open>done\<close>, or a rejected \<open>read()\<close> (a dropped connection).\<close>

datatype reader_end = EndOfStream | ReadFails

record readable =
  chunks :: "chunk list"
  ending :: reader_end

record response =
  ok :: bool
  status :: nat
  body :: "readable option"

text \<open>A request: the path under \<open>API_BASE_URL\<close> and the object given to
  \<open>JSON.stringify\<close> (the method is POST and the content type JSON in both).\<close>

record request =
  url :: string
  payload :: jsval

text \<open>The lines of the \<open>for\<close> loop, lines 42 to 50: \<open>parse\<close> is \<open>JSON.parse\<close>,
  \<open>None\<close> when it throws.\<close>

fun for_lines :: "(string \<Rightarrow> 'e option) \<Rightarrow> string list \<Rightarrow> 'e emitted list" where
  "for_lines parse [] = []"
| "for_lines parse (line # lines) =
     (if startsWith line ''data: ''
      then (case parse (drop 6 line) of
              Some e \<Rightarrow> [Yield e]
            | None \<Rightarrow> [ConsoleError ''Failed to parse SSE:''])
      else []) @ for_lines parse lines"

text \<open>
  The \<open>while (true)\<close> loop of \<open>streamChat\<close>, lines 33 to 51, over the chunks still to
  be read. \<open>decode d v\<close> is \<open>decoder.decode(value, { stream: true })\<close>: the
  \<open>TextDecoder\<close> is the platform's, so it is a parameter, a state \<open>d\<close> (the bytes of
  an unfinished character it keeps) and the text it returns. \<open>lines.pop() || ''\<close> is
  the last piece, and the empty string if there were none. When the chunks are
  exhausted, \<open>done\<close> breaks the loop and the buffer is dropped.
\<close>

fun streamChat_loop ::
  "('d \<Rightarrow> chunk \<Rightarrow> 'd \<times> string) \<Rightarrow> (string \<Rightarrow> 'e option) \<Rightarrow> 'd \<Rightarrow> string \<Rightarrow> chunk list
     \<Rightarrow> 'e emitted list" where
  "streamChat_loop decode parse d buffer [] = []"
| "streamChat_loop decode parse d buffer (v # rest) =
     (let buffer1 = buffer @ snd (decode d v);
          lines = js_split_nl buffer1;
          buffer2 = (if lines = [] then [] else last lines);
          lines1 = butlast lines
      in for_lines parse lines1 @ streamChat_loop decode parse (fst (decode d v)) buffer2 rest)"

text \<open>The same loop as \<open>resumeChat\<close> writes it again, lines 73 to 91.\<close>

fun resumeChat_loop ::
  "('d \<Rightarrow> chunk \<Rightarrow> 'd \<times> string) \<Rightarrow> (string \<Rightarrow> 'e option) \<Rightarrow> 'd \<Rightarrow> string \<Rightarrow> chunk list
     \<Rightarrow> 'e emitted list" where
  "resumeChat_loop decode parse d buffer [] = []"
| "resumeChat_loop decode parse d buffer (v # rest) =
     (let buffer1 = buffer @ snd (decode d v);
          lines = js_split_nl buffer1;
          buffer2 = (if lines = [] then [] else last lines);
          lines1 = butlast lines
      in for_lines parse lines1 @ resumeChat_loop decode parse (fst (decode d v)) buffer2 rest)"

text \<open>
  \<open>streamChat\<close> from line 27 on, given what \<open>fetch\<close> returned (\<open>None\<close>: it rejected):
  what is emitted, and the error thrown if any. \<open>d0\<close> is the fresh \<open>TextDecoder\<close>.
\<close>

definition streamChat_response ::
  "('d \<Rightarrow> chunk \<Rightarrow> 'd \<times> string) \<Rightarrow> 'd \<Rightarrow> (string \<Rightarrow> 'e option) \<Rightarrow> response option
     \<Rightarrow> 'e emitted list \<times> js_error option" where
  "streamChat_response decode d0 parse fetched =
     (case fetched of
        None \<Rightarrow> ([], Some FetchRejected)
      | Some resp \<Rightarrow>
          if \<not> ok resp then ([], Some (HttpError (status resp)))
          else (case body resp of
                  None \<Rightarrow> ([], Some NoReader)
                | Some rd \<Rightarrow>
                    (streamChat_loop decode parse d0 [] (chunks rd),
                     case ending rd of EndOfStream \<Rightarrow> None | ReadFails \<Rightarrow> Some ReadRejected)))"

definition resumeChat_response ::
  "('d \<Rightarrow> chunk \<Rightarrow> 'd \<times> string) \<Rightarrow> 'd \<Rightarrow> (string \<Rightarrow> 'e option) \<Rightarrow> response option
     \<Rightarrow> 'e emitted list \<times> js_error option" where
  "resumeChat_response decode d0 parse fetched =
     (case fetched of
        None \<Rightarrow> ([], Some FetchRejected)
      | Some resp \<Rightarrow>
          if \<not> ok resp then ([], Some (HttpError (status resp)))
          else (case body resp of
                  None \<Rightarrow> ([], Some NoReader)
                | Some rd \<Rightarrow>
                    (resumeChat_loop decode parse d0 [] (chunks rd),
                     case ending rd of EndOfStream \<Rightarrow> None | ReadFails \<Rightarrow> Some ReadRejected)))"

text \<open>The requests of lines 21 to 25 and 58 to 65. \<open>conversationId || null\<close> sends
  \<open>null\<close> for an absent or empty identifier; \<open>JSON.stringify\<close> leaves out a key whose
  value is \<open>undefined\<close>.\<close>

definition streamChat_request :: "string \<Rightarrow> string option \<Rightarrow> request" where
  "streamChat_request message conversationId =
     \<lparr>url = ''/chat/stream'',
      payload = JObj [(''message'', JStr message),
                      (''conversation_id'',
                         if truthy_str conversationId then JStr (the conversationId) else JNull)]\<rparr>"

definition resumeChat_request :: "string \<Rightarrow> jsval \<Rightarrow> request" where
  "resumeChat_request conversationId v =
     \<lparr>url = ''/chat/resume'',
      payload = JObj ((''conversation_id'', JStr conversationId) #
                      (if v = JUndefined then [] else [(''value'', v)]))\<rparr>"

text \<open>The platform the module runs on: the \<open>TextDecoder\<close>, \<open>JSON.parse\<close> and
  \<open>fetch\<close>.\<close>

record 'd platform =
  TextDecoder_decode :: "'d \<Rightarrow> chunk \<Rightarrow> 'd \<times> string"
  TextDecoder_new :: 'd
  JSON_parse :: "string \<Rightarrow> StreamEvent option"
  fetch :: "request \<Rightarrow> response option"

definition streamChat ::
  "'d platform \<Rightarrow> string \<Rightarrow> string option \<Rightarrow> StreamEvent emitted list \<times> js_error option" where
  "streamChat env message conversationId =
     streamChat_response (TextDecoder_decode env) (TextDecoder_new env) (JSON_parse env)
       (fetch env (streamChat_request message conversationId))"

definition resumeChat ::
  "'d platform \<Rightarrow> string \<Rightarrow> jsval \<Rightarrow> StreamEvent emitted list \<times> js_error option" where
  "resumeChat env conversationId v =
     resumeChat_response (TextDecoder_decode env) (TextDecoder_new env) (JSON_parse env)
       (fetch env (resumeChat_request conversationId v))"

text \<open>The events a consumer of the generator receives, in order.\<close>

definition events_of :: "'e emitted list \<Rightarrow> 'e list" where
  "events_of out = List.map_filter (\<lambda>x. case x of Yield e \<Rightarrow> Some e | ConsoleError m \<Rightarrow> None) out"

text \<open>All the text a decoder returns over a sequence of chunks.\<close>

fun decode_all :: "('d \<Rightarrow> chunk \<Rightarrow> 'd \<times> string) \<Rightarrow> 'd \<Rightarrow> chunk list \<Rightarrow> string" where
  "decode_all decode d [] = []"
| "decode_all decode d (v # rest) = snd (decode d v) @ decode_all decode (fst (decode d v)) rest"

text \<open>
  What the encoding standard asks of a decoder in streaming mode: no bytes give no text
  and leave the state alone, and decoding \<open>a @ b\<close> at once is decoding \<open>a\<close>, then
  \<open>b\<close> from the state \<open>a\<close> left.
\<close>

definition streaming_decoder :: "('d \<Rightarrow> chunk \<Rightarrow> 'd \<times> string) \<Rightarrow> bool" where
  "streaming_decoder decode \<longleftrightarrow>
     (\<forall>d. decode d [] = (d, [])) \<and>
     (\<forall>d a b. decode d (a @ b) =
        (fst (decode (fst (decode d a)) b),
         snd (decode d a) @ snd (decode (fst (decode d a)) b)))"

text \<open>The text of a stream made of the lines \<open>ls\<close>, each ended by a line feed, and an
  unfinished rest \<open>r\<close>.\<close>

definition terminated_lines :: "string list \<Rightarrow> string \<Rightarrow> string" where
  "terminated_lines ls r = concat (map (\<lambda>l. l @ [CHR 0x0A]) ls) @ r"


section \<open>page.tsx\<close>

text \<open>
  The interface \<open>Message\<close>. Its \<open>id\<close> and \<open>timestamp\<close> are made by \<open>addMessage\<close> from
  the clock and \<open>Math.random()\<close>; no handler reads them, and they are left out. The
  \<open>content\<close> is declared a string, but the echo of a selection stores whatever the
  chosen option has as its \<open>name\<close>, so it is a \<open>jsval\<close>. The \<open>data\<close> is one of the
  three things the handlers put there.
\<close>

datatype message_type =
  User | System | Step | Research | Analysis | Season | Planning | Question | Result | Error
  | Interrupt

datatype message_data =
    Plain jsval
  | InterruptCard "string option" "jsval list option" "string option" jsval
  | WholeEvent StreamEvent

record Message =
  msg_type :: message_type
  msg_step :: "string option"
  msg_content :: jsval
  msg_data :: message_data

record InterruptData =
  int_type :: "string option"
  int_question :: string
  int_field :: "string option"
  int_options :: "jsval list option"
  int_missing_info :: "string list option"
  int_budget_allocation :: jsval

text \<open>The state cells of the component \<open>Home\<close>, lines 48 to 62.\<close>

record Home_state =
  messages :: "Message list"
  input :: string
  isLoading :: bool
  conversationId :: "string option"
  currentStep :: nat
  interruptData :: "InterruptData option"
  userResponse :: string
  selectedSeason :: jsval

text \<open>The state of a page just loaded; \<open>welcome\<close> is the text of its first message.\<close>

definition Home_initial :: "string \<Rightarrow> Home_state" where
  "Home_initial welcome =
     \<lparr>messages = [\<lparr>msg_type = System, msg_step = None, msg_content = JStr welcome,
                    msg_data = Plain JUndefined\<rparr>],
      input = [], isLoading = False, conversationId = None, currentStep = 0,
      interruptData = None, userResponse = [], selectedSeason = JNull\<rparr>"

text \<open>\<open>addMessage\<close>, lines 69 to 78: an updater, so it appends to the messages of the
  moment.\<close>

definition addMessage :: "Message \<Rightarrow> Home_state \<Rightarrow> Home_state" where
  "addMessage m s = s\<lparr>messages := messages s @ [m]\<rparr>"

text \<open>
  The handlers are closures of one rendering of the component. What they read by name
  (\<open>input\<close>, \<open>isLoading\<close>, \<open>conversationId\<close>, \<open>interruptData\<close>) is the constant that
  \<open>useState\<close> returned to that rendering: calling a setter changes the cell, and the
  renderings to come, never the constant a running handler holds. So every handler takes
  two states: \<open>r\<close>, the values of the rendering it was created in, which it reads, and
  \<open>s\<close>, the cells, which its setters write. The updater forms (\<open>setCurrentStep((prev) =>
  prev + 1)\<close>, \<open>addMessage\<close>) are the ones that read the cell. The \<open>for await\<close> loop of
  a handler calls the \<open>handleStreamEvent\<close> of the same rendering, for every event of the
  stream. A handler is followed from its call to the end of its stream, with no other
  handler running in between.

  \<open>handleStreamEvent\<close>, lines 136 to 259 (its \<open>console.log\<close> left out).
\<close>

definition handleStreamEvent :: "Home_state \<Rightarrow> StreamEvent \<Rightarrow> Home_state \<Rightarrow> Home_state" where
  "handleStreamEvent r event s0 =
     (let s = (if truthy_str (ev_conversation_id event) \<and> \<not> truthy_str (conversationId r)
               then s0\<lparr>conversationId := ev_conversation_id event\<rparr>
               else s0);
          t = ev_type event
      in
      if t = ''system'' then
        (if truthy_str (ev_content event)
            \<and> \<not> js_includes (the (ev_content event)) ''Starting''
            \<and> \<not> js_includes (the (ev_content event)) ''Processing''
         then addMessage \<lparr>msg_type = System, msg_step = None,
                           msg_content = JStr (the (ev_content event)),
                           msg_data = Plain JUndefined\<rparr> s
         else s)
      else if t = ''message'' then
        (if truthy_str (ev_content event)
         then addMessage \<lparr>msg_type = System, msg_step = None,
                           msg_content = JStr (the (ev_content event)),
                           msg_data = Plain JUndefined\<rparr> s
         else s)
      else if t = ''resume'' then s
      else if t = ''interrupt'' then
        addMessage
          \<lparr>msg_type = Interrupt, msg_step = None,
           msg_content = JStr (str_or (ev_question event) ''Please provide more information''),
           msg_data = InterruptCard (ev_interrupt_type event) (ev_options event) (ev_field event)
                        (ev_budget_allocation event)\<rparr>
          (s\<lparr>isLoading := False,
             interruptData := Some
               \<lparr>int_type = ev_interrupt_type event,
                int_question = str_or (ev_question event) [],
                int_field = ev_field event,
                int_options = ev_options event,
                int_missing_info = ev_missing_info event,
                int_budget_allocation = ev_budget_allocation event\<rparr>\<rparr>)
      else if t = ''step'' then
        (let s1 = addMessage \<lparr>msg_type = Step, msg_step = ev_step event,
                              msg_content = JStr (str_or (ev_content event) ''Processing...''),
                              msg_data = Plain (ev_data event)\<rparr>
                    (s\<lparr>currentStep := currentStep s + 1\<rparr>)
         in if truthy (js_get (ev_data event) ''season'')
            then s1\<lparr>selectedSeason := js_get (ev_data event) ''season''\<rparr>
            else s1)
      else if t = ''research'' then
        addMessage \<lparr>msg_type = Research, msg_step = ev_step event,
                     msg_content = JStr (str_or (ev_content event) ''Researching destinations...''),
                     msg_data = Plain (ev_data event)\<rparr>
          (s\<lparr>currentStep := currentStep s + 1\<rparr>)
      else if t = ''analysis'' then
        addMessage \<lparr>msg_type = Analysis, msg_step = ev_step event,
                     msg_content = JStr (str_or (ev_content event) ''Analyzing options...''),
                     msg_data = Plain (ev_data event)\<rparr>
          (s\<lparr>currentStep := currentStep s + 1\<rparr>)
      else if t = ''season'' then
        addMessage \<lparr>msg_type = Season, msg_step = ev_step event,
                     msg_content = JStr (str_or (ev_content event) ''Season recommendations...''),
                     msg_data = Plain (ev_data event)\<rparr>
          (s\<lparr>currentStep := currentStep s + 1\<rparr>)
      else if t = ''planning'' then
        addMessage \<lparr>msg_type = Planning, msg_step = ev_step event,
                     msg_content = JStr (str_or (ev_content event) ''Planning itinerary...''),
                     msg_data = Plain (ev_data event)\<rparr>
          (s\<lparr>currentStep := currentStep s + 1\<rparr>)
      else if t = ''result'' then
        addMessage \<lparr>msg_type = Result, msg_step = ev_step event,
                     msg_content = JStr (str_or (ev_content event) ''Complete!''),
                     msg_data = WholeEvent event\<rparr>
          (s\<lparr>currentStep := 8\<rparr>)
      else if t = ''error'' then
        (addMessage \<lparr>msg_type = Error, msg_step = None,
                      msg_content = JStr (str_or (ev_content event) ''An error occurred.''),
                      msg_data = Plain JUndefined\<rparr> s)
          \<lparr>isLoading := False\<rparr>
      else s)"

text \<open>The message of both \<open>catch\<close> blocks, lines 99 and 130.\<close>

definition catch_message :: Message where
  "catch_message =
     \<lparr>msg_type = Error, msg_step = None,
      msg_content = JStr ''Sorry, I encountered an error. Please try again.'',
      msg_data = Plain JUndefined\<rparr>"

text \<open>
  What a call of a handler comes to: it returns, leaving the cells in a state and having
  sent some requests, or it throws.
\<close>

datatype handler_result = Returned Home_state "request list" | Threw js_error

fun is_Threw :: "handler_result \<Rightarrow> bool" where
  "is_Threw (Threw e) = True"
| "is_Threw (Returned s reqs) = False"

fun state_of :: "handler_result \<Rightarrow> Home_state option" where
  "state_of (Returned s reqs) = Some s"
| "state_of (Threw e) = None"

fun requests_of :: "handler_result \<Rightarrow> request list" where
  "requests_of (Returned s reqs) = reqs"
| "requests_of (Threw e) = []"

text \<open>
  \<open>handleSubmit\<close>, lines 80 to 103. The \<open>for await\<close> loop hands the events to
  \<open>handleStreamEvent\<close> in the order they are yielded; when the generator throws, the
  events it yielded before have been handled, the \<open>catch\<close> adds its message, and
  \<open>finally\<close> clears the loading flag.
\<close>

definition handleSubmit :: "'d platform \<Rightarrow> Home_state \<Rightarrow> Home_state \<Rightarrow> handler_result" where
  "handleSubmit env r s =
     (if js_trim (input r) = [] \<or> isLoading r then Returned s []
      else
        (let userMessage = js_trim (input r);
             s1 = s\<lparr>input := [], isLoading := True, currentStep := 0, interruptData := None,
                     selectedSeason := JNull\<rparr>;
             s2 = addMessage \<lparr>msg_type = User, msg_step = None, msg_content = JStr userMessage,
                               msg_data = Plain JUndefined\<rparr> s1;
             arg = (if truthy_str (conversationId r) then conversationId r else None);
             gen = streamChat env userMessage arg;
             s3 = fold (handleStreamEvent r) (events_of (fst gen)) s2;
             s4 = (case snd gen of None \<Rightarrow> s3 | Some err \<Rightarrow> addMessage catch_message s3)
         in Returned (s4\<lparr>isLoading := False\<rparr>) [streamChat_request userMessage arg]))"

text \<open>\<open>handleInterruptResponse\<close>, lines 105 to 134.\<close>

definition handleInterruptResponse ::
  "'d platform \<Rightarrow> Home_state \<Rightarrow> jsval \<Rightarrow> Home_state \<Rightarrow> handler_result" where
  "handleInterruptResponse env r v s =
     (if \<not> truthy_str (conversationId r) \<or> interruptData r = None then Returned s []
      else
        (let currentInterrupt = the (interruptData r);
             s1 = s\<lparr>isLoading := True, interruptData := None, userResponse := []\<rparr>;
             responseText =
               (if int_type currentInterrupt = Some ''destination_selection''
                then (let selectedOption =
                            (case int_options currentInterrupt of
                               None \<Rightarrow> JUndefined
                             | Some opts \<Rightarrow> js_elem opts v)
                      in if truthy (js_get selectedOption ''name'')
                         then js_get selectedOption ''name''
                         else JStr (''Option '' @ js_to_string v))
                else JStr (js_to_string v));
             s2 = addMessage \<lparr>msg_type = User, msg_step = None, msg_content = responseText,
                               msg_data = Plain JUndefined\<rparr> s1;
             gen = resumeChat env (the (conversationId r)) v;
             s3 = fold (handleStreamEvent r) (events_of (fst gen)) s2;
             s4 = (case snd gen of None \<Rightarrow> s3 | Some err \<Rightarrow> addMessage catch_message s3)
         in Returned (s4\<lparr>isLoading := False\<rparr>) [resumeChat_request (the (conversationId r)) v]))"

text \<open>
  A handler the user triggers on a page at rest is the one of the latest rendering: what
  it reads is what the cells hold.
\<close>

definition submitMessage :: "'d platform \<Rightarrow> Home_state \<Rightarrow> handler_result" where
  "submitMessage env s = handleSubmit env s s"

definition submitAnswer :: "'d platform \<Rightarrow> jsval \<Rightarrow> Home_state \<Rightarrow> handler_result" where
  "submitAnswer env v s = handleInterruptResponse env s v s"


section \<open>Concrete platforms and events\<close>

text \<open>The event that \<open>JSON.parse\<close> makes of an object with a \<open>type\<close> and nothing
  else.\<close>

definition plain_event :: "string \<Rightarrow> StreamEvent" where
  "plain_event t =
     \<lparr>ev_type = t, ev_step = None, ev_content = None, ev_conversation_id = None,
      ev_data = JUndefined, ev_interrupt_type = None, ev_question = None, ev_field = None,
      ev_options = None, ev_missing_info = None, ev_budget_allocation = JUndefined\<rparr>"

text \<open>A platform for streams of ASCII text: every byte is a character, so the decoder
  returns each chunk as it is and keeps nothing.\<close>

definition ascii_platform ::
  "(string \<Rightarrow> StreamEvent option) \<Rightarrow> (request \<Rightarrow> response option) \<Rightarrow> unit platform" where
  "ascii_platform parse net =
     \<lparr>TextDecoder_decode = (\<lambda>d v. (d, v)), TextDecoder_new = (), JSON_parse = parse,
      fetch = net\<rparr>"

text \<open>A response with status 200 whose body delivers the chunks and ends.\<close>

definition ok_response :: "chunk list \<Rightarrow> response" where
  "ok_response cs = \<lparr>ok = True, status = 200, body = Some \<lparr>chunks = cs, ending = EndOfStream\<rparr>\<rparr>"


section \<open>Lines and chunks\<close>


lemma js_split_nl_nonempty: "js_split_nl s \<noteq> []"
  by (induction s) (auto split: list.splits)

lemma js_split_nl_no_nl: "CHR 0x0A \<notin> set s \<Longrightarrow> js_split_nl s = [s]"
  by (induction s) auto

lemma js_split_nl_line: "CHR 0x0A \<notin> set l \<Longrightarrow> js_split_nl (l @ CHR 0x0A # t) = l # js_split_nl t"
  by (induction l) auto

lemma last_js_split_nl_no_nl: "CHR 0x0A \<notin> set (last (js_split_nl s))"
proof (induction s)
  case Nil
  show ?case by simp
next
  case (Cons c s)
  then show ?case
    using js_split_nl_nonempty [of s]
    by (cases "js_split_nl s") (auto split: if_splits)
qed

lemma js_split_nl_append:
  "js_split_nl (a @ b) = butlast (js_split_nl a) @ js_split_nl (last (js_split_nl a) @ b)"
proof (induction a)
  case Nil
  show ?case by simp
next
  case (Cons c a)
  show ?case
  proof (cases "c = CHR 0x0A")
    case True
    then show ?thesis using Cons js_split_nl_nonempty [of a] by simp
  next
    case False
    obtain l ls where s: "js_split_nl a = l # ls"
      using js_split_nl_nonempty [of a] by (cases "js_split_nl a") auto
    show ?thesis
    proof (cases ls)
      case Nil
      with s False Cons show ?thesis by simp
    next
      case (Cons l' ls')
      with s False Cons.IH show ?thesis by simp
    qed
  qed
qed

lemma butlast_js_split_nl_append:
  "butlast (js_split_nl (a @ b)) =
     butlast (js_split_nl a) @ butlast (js_split_nl (last (js_split_nl a) @ b))"
  using js_split_nl_append [of a b] js_split_nl_nonempty [of "last (js_split_nl a) @ b"]
  by (simp add: butlast_append)

lemma for_lines_append: "for_lines parse (xs @ ys) = for_lines parse xs @ for_lines parse ys"
  by (induction xs) auto

lemma streamChat_loop_lines:
  "CHR 0x0A \<notin> set buffer \<Longrightarrow>
   streamChat_loop decode parse d buffer cs =
     for_lines parse (butlast (js_split_nl (buffer @ decode_all decode d cs)))"
proof (induction cs arbitrary: d buffer)
  case Nil
  then show ?case by (simp add: js_split_nl_no_nl)
next
  case (Cons v rest)
  let ?b1 = "buffer @ snd (decode d v)"
  let ?d1 = "fst (decode d v)"
  have ih: "streamChat_loop decode parse ?d1 (last (js_split_nl ?b1)) rest
        = for_lines parse (butlast (js_split_nl (last (js_split_nl ?b1) @ decode_all decode ?d1 rest)))"
    by (rule Cons.IH [OF last_js_split_nl_no_nl])
  have "butlast (js_split_nl (?b1 @ decode_all decode ?d1 rest)) =
          butlast (js_split_nl ?b1) @
          butlast (js_split_nl (last (js_split_nl ?b1) @ decode_all decode ?d1 rest))"
    by (rule butlast_js_split_nl_append)
  then have "for_lines parse (butlast (js_split_nl (buffer @ decode_all decode d (v # rest)))) =
          for_lines parse (butlast (js_split_nl ?b1)) @
          for_lines parse (butlast (js_split_nl (last (js_split_nl ?b1) @ decode_all decode ?d1 rest)))"
    by (simp add: for_lines_append)
  then show ?case
    using js_split_nl_nonempty [of ?b1] by (simp add: Let_def ih)
qed

lemma resumeChat_loop_eq:
  "resumeChat_loop decode parse d buffer cs = streamChat_loop decode parse d buffer cs"
  by (induction cs arbitrary: d buffer) (simp_all add: Let_def)

lemma js_split_nl_terminated:
  "\<forall>l \<in> set ls. CHR 0x0A \<notin> set l \<Longrightarrow> CHR 0x0A \<notin> set r \<Longrightarrow>
   js_split_nl (terminated_lines ls r) = ls @ [r]"
  unfolding terminated_lines_def
  by (induction ls) (simp_all add: js_split_nl_no_nl js_split_nl_line)

lemma decode_all_concat:
  assumes "streaming_decoder decode"
  shows "decode_all decode d cs = snd (decode d (concat cs))"
proof (induction cs arbitrary: d)
  case Nil
  from assms show ?case by (simp add: streaming_decoder_def)
next
  case (Cons v rest)
  from assms have "decode d (v @ concat rest) =
     (fst (decode (fst (decode d v)) (concat rest)),
      snd (decode d v) @ snd (decode (fst (decode d v)) (concat rest)))"
    unfolding streaming_decoder_def by blast
  with Cons.IH show ?case by simp
qed

lemma events_of_append: "events_of (xs @ ys) = events_of xs @ events_of ys"
  by (simp add: events_of_def List.map_filter_def)

lemma events_of_simps:
  "events_of [] = []"
  "events_of (Yield e # xs) = e # events_of xs"
  "events_of (ConsoleError m # xs) = events_of xs"
  by (simp_all add: events_of_def List.map_filter_simps)

lemma events_of_for_lines:
  "events_of (for_lines parse ls) =
     List.map_filter (\<lambda>l. if startsWith l ''data: '' then parse (drop 6 l) else None) ls"
  by (induction ls) (auto simp: events_of_def List.map_filter_simps split: option.splits)

lemma streamChat_loop_terminated:
  assumes "decode_all decode d cs = terminated_lines ls r"
    and "\<forall>l \<in> set ls. CHR 0x0A \<notin> set l" and "CHR 0x0A \<notin> set r"
  shows "streamChat_loop decode parse d [] cs = for_lines parse ls"
  using assms by (simp add: streamChat_loop_lines js_split_nl_terminated)

lemma identity_streaming: "streaming_decoder (\<lambda>d v. (d, v))"
  by (simp add: streaming_decoder_def)

section \<open>The decoder's properties\<close>

text \<open>
  Claim C2. For every byte stream and every two ways of cutting it into chunks, the read
  loop of \<open>streamChat\<close>, and that of \<open>resumeChat\<close>, emit the same sequence (so yield
  the same events in the same order), wherever the cuts fall, also inside a frame. The
  text decoder is any decoder that honours the streaming contract.
\<close>

theorem chunk_boundaries_do_not_matter:
  assumes "streaming_decoder decode" and "concat cs = concat cs'"
  shows "streamChat_loop decode parse d [] cs = streamChat_loop decode parse d [] cs'
       \<and> resumeChat_loop decode parse d [] cs = resumeChat_loop decode parse d [] cs'"
  using assms by (simp add: resumeChat_loop_eq streamChat_loop_lines decode_all_concat)

theorem chunk_boundaries_do_not_matter_witness:
  "streaming_decoder (\<lambda>(d::unit) v. (d, v))
   \<and> concat [''da'', ''ta: A'' @ [CHR 0x0A] @ ''x'', ''y'' @ [CHR 0x0A] @ ''data: B'', [CHR 0x0A]]
       = concat [''data: A'' @ [CHR 0x0A] @ ''xy'' @ [CHR 0x0A] @ ''data: B'' @ [CHR 0x0A]]
   \<and> streamChat_loop (\<lambda>(d::unit) v. (d, v)) Some () []
        [''da'', ''ta: A'' @ [CHR 0x0A] @ ''x'', ''y'' @ [CHR 0x0A] @ ''data: B'', [CHR 0x0A]]
       = streamChat_loop (\<lambda>(d::unit) v. (d, v)) Some () []
           [''data: A'' @ [CHR 0x0A] @ ''xy'' @ [CHR 0x0A] @ ''data: B'' @ [CHR 0x0A]]
   \<and> streamChat_loop (\<lambda>(d::unit) v. (d, v)) Some () []
           [''data: A'' @ [CHR 0x0A] @ ''xy'' @ [CHR 0x0A] @ ''data: B'' @ [CHR 0x0A]]
       = [Yield ''A'', Yield ''B'']"
proof -
  have h1: "streaming_decoder (\<lambda>(d::unit) v. (d, v))" by (rule identity_streaming)
  have h2: "concat [''da'', ''ta: A'' @ [CHR 0x0A] @ ''x'', ''y'' @ [CHR 0x0A] @ ''data: B'', [CHR 0x0A]]
       = concat [''data: A'' @ [CHR 0x0A] @ ''xy'' @ [CHR 0x0A] @ ''data: B'' @ [CHR 0x0A]]" by simp
  have h3: "streamChat_loop (\<lambda>(d::unit) v. (d, v)) Some () []
           [''data: A'' @ [CHR 0x0A] @ ''xy'' @ [CHR 0x0A] @ ''data: B'' @ [CHR 0x0A]]
       = [Yield ''A'', Yield ''B'']" by (simp add: Let_def startsWith_def)
  from chunk_boundaries_do_not_matter [OF h1 h2, of Some "()"] h1 h2 h3 show ?thesis by blast
qed


text \<open>
  Claim C3. Let the text of a successfully opened stream be the lines \<open>ls\<close>, each
  ended by a line feed, followed by an unfinished rest \<open>r\<close>. The events yielded are
  exactly the parsed payloads of the lines of \<open>ls\<close> that begin with \<open>data: \<close>, in
  order; every other line yields nothing, the generator throws nothing, and the rest
  \<open>r\<close> yields nothing whatever it holds.
\<close>

theorem only_terminated_data_lines_are_parsed:
  assumes "ok resp" and "body resp = Some rd" and "ending rd = EndOfStream"
    and "decode_all decode d0 (chunks rd) = terminated_lines ls r"
    and "\<forall>l \<in> set ls. CHR 0x0A \<notin> set l" and "CHR 0x0A \<notin> set r"
  shows "snd (streamChat_response decode d0 parse (Some resp)) = None
       \<and> events_of (fst (streamChat_response decode d0 parse (Some resp))) =
           List.map_filter (\<lambda>l. if startsWith l ''data: '' then parse (drop 6 l) else None) ls
       \<and> snd (resumeChat_response decode d0 parse (Some resp)) = None
       \<and> events_of (fst (resumeChat_response decode d0 parse (Some resp))) =
           List.map_filter (\<lambda>l. if startsWith l ''data: '' then parse (drop 6 l) else None) ls"
  using assms
  by (simp add: streamChat_response_def resumeChat_response_def resumeChat_loop_eq
      streamChat_loop_terminated events_of_for_lines)

theorem only_terminated_data_lines_are_parsed_witness:
  "events_of (fst (streamChat_response (\<lambda>(d::unit) v. (d, v)) () Some
      (Some \<lparr>ok = True, status = 200,
             body = Some \<lparr>chunks = ['': ping\<newline>data: A\<newline>da'', ''ta:B\<newline>Data: C\<newline> data: D\<newline>data: E\<newline>data: F''],
                          ending = EndOfStream\<rparr>\<rparr>)))
     = [''A'', ''E'']"
proof -
  let ?rd = "\<lparr>chunks = ['': ping\<newline>data: A\<newline>da'', ''ta:B\<newline>Data: C\<newline> data: D\<newline>data: E\<newline>data: F''],
              ending = EndOfStream\<rparr>"
  let ?resp = "\<lparr>ok = True, status = 200, body = Some ?rd\<rparr>"
  let ?ls = "['': ping'', ''data: A'', ''data:B'', ''Data: C'', '' data: D'', ''data: E'']"
  have h1: "ok ?resp" by simp
  have h2: "body ?resp = Some ?rd" by simp
  have h3: "ending ?rd = EndOfStream" by simp
  have h4: "decode_all (\<lambda>(d::unit) v. (d, v)) () (chunks ?rd) = terminated_lines ?ls ''data: F''"
    by (simp add: terminated_lines_def)
  have h5: "\<forall>l \<in> set ?ls. CHR 0x0A \<notin> set l" by simp
  have h6: "CHR 0x0A \<notin> set ''data: F''" by simp
  from only_terminated_data_lines_are_parsed [OF h1 h2 h3 h4 h5 h6, of Some]
  show ?thesis by (simp add: List.map_filter_simps startsWith_def)
qed

text \<open>
  Claim C4. When the payload of a \<open>data: \<close> line does not parse, the generator emits
  what the lines before it emit, then the diagnostic of \<open>console.error\<close>, then what the
  lines after it emit, and ends without throwing: the events before and after the bad
  frame are all yielded, in their order.
\<close>

theorem parse_failure_drops_one_frame_only:
  assumes "ok resp" and "body resp = Some rd" and "ending rd = EndOfStream"
    and "decode_all decode d0 (chunks rd) = terminated_lines (pre @ [''data: '' @ bad] @ post) r"
    and "\<forall>l \<in> set pre \<union> set post. CHR 0x0A \<notin> set l"
    and "CHR 0x0A \<notin> set bad" and "CHR 0x0A \<notin> set r"
    and "parse bad = None"
  shows "streamChat_response decode d0 parse (Some resp) =
           (for_lines parse pre @ [ConsoleError ''Failed to parse SSE:''] @ for_lines parse post, None)
       \<and> events_of (fst (streamChat_response decode d0 parse (Some resp))) =
           events_of (for_lines parse pre) @ events_of (for_lines parse post)"
proof -
  from assms have nl: "\<forall>l \<in> set (pre @ [''data: '' @ bad] @ post). CHR 0x0A \<notin> set l"
    by auto
  have "streamChat_loop decode parse d0 [] (chunks rd) =
      for_lines parse (pre @ [''data: '' @ bad] @ post)"
    by (rule streamChat_loop_terminated [OF assms(4) nl assms(7)])
  then have out: "streamChat_loop decode parse d0 [] (chunks rd) =
      for_lines parse pre @ [ConsoleError ''Failed to parse SSE:''] @ for_lines parse post"
    using assms(8) by (simp add: for_lines_append startsWith_def)
  have "events_of (for_lines parse pre @ [ConsoleError ''Failed to parse SSE:''] @ for_lines parse post)
      = events_of (for_lines parse pre) @ events_of (for_lines parse post)"
    by (simp add: events_of_append events_of_simps)
  with out assms(1-3) show ?thesis
    by (simp add: streamChat_response_def)
qed

theorem parse_failure_drops_one_frame_only_witness:
  "streamChat_response (\<lambda>(d::unit) v. (d, v)) ()
      (\<lambda>s. if s = ''{\"type\":\"step\"}'' then Some (1::nat)
            else if s = ''{\"type\":\"result\"}'' then Some 2 else None)
      (Some \<lparr>ok = True, status = 200,
             body = Some \<lparr>chunks = [''data: {\"type\":\"step\"}\<newline>data: not-json\<newline>data: {\"type\":\"result\"}\<newline>''],
                          ending = EndOfStream\<rparr>\<rparr>)
     = ([Yield 1, ConsoleError ''Failed to parse SSE:'', Yield 2], None)"
proof -
  let ?parse = "\<lambda>s. if s = ''{\"type\":\"step\"}'' then Some (1::nat)
            else if s = ''{\"type\":\"result\"}'' then Some 2 else None"
  let ?rd = "\<lparr>chunks = [''data: {\"type\":\"step\"}\<newline>data: not-json\<newline>data: {\"type\":\"result\"}\<newline>''],
              ending = EndOfStream\<rparr>"
  let ?resp = "\<lparr>ok = True, status = 200, body = Some ?rd\<rparr>"
  have h1: "ok ?resp" by simp
  have h2: "body ?resp = Some ?rd" by simp
  have h3: "ending ?rd = EndOfStream" by simp
  have h4: "decode_all (\<lambda>(d::unit) v. (d, v)) () (chunks ?rd) =
      terminated_lines ([''data: {\"type\":\"step\"}''] @ [''data: '' @ ''not-json''] @ [''data: {\"type\":\"result\"}'']) []"
    by (simp add: terminated_lines_def)
  have h5: "\<forall>l \<in> set [''data: {\"type\":\"step\"}''] \<union> set [''data: {\"type\":\"result\"}'']. CHR 0x0A \<notin> set l"
    by simp
  have h6: "CHR 0x0A \<notin> set ''not-json''" by simp
  have h7: "CHR 0x0A \<notin> set []" by simp
  have h8: "?parse ''not-json'' = None" by simp
  from parse_failure_drops_one_frame_only [where parse = ?parse and bad = "''not-json''", OF h1 h2 h3 h4 h5 h6 h7 h8]
  show ?thesis by (simp add: startsWith_def)
qed

text \<open>
  Claim C10. On the same response of the transport, \<open>resumeChat\<close> emits and throws
  exactly what \<open>streamChat\<close> does: the two read loops decode alike, from any buffer and
  decoder state.
\<close>

theorem resumeChat_decodes_as_streamChat:
  "resumeChat_response decode d0 parse fetched = streamChat_response decode d0 parse fetched
   \<and> resumeChat_loop decode parse d buffer cs = streamChat_loop decode parse d buffer cs"
  by (simp add: resumeChat_response_def streamChat_response_def resumeChat_loop_eq
      split: option.splits)


section \<open>Trimming\<close>

lemma js_trim_to_Kyoto: "js_trim ''to Kyoto'' = ''to Kyoto''"
  by (simp add: js_trim_def js_whitespace_def startsWith_def)

lemma js_trim_hi: "js_trim ''hi'' = ''hi''"
  by (simp add: js_trim_def js_whitespace_def startsWith_def)

lemma js_trim_padded:
  "js_trim ([CHR 0x20, CHR 0xC2, CHR 0xA0] @ ''to Kyoto'' @ [CHR 0xE3, CHR 0x80, CHR 0x80, CHR 0x0A]) = ''to Kyoto''"
  by (simp add: js_trim_def js_whitespace_def startsWith_def)

lemma js_trim_nbsp: "js_trim [CHR 0xC2, CHR 0xA0, CHR 0x20, CHR 0xE2, CHR 0x80, CHR 0xA8] = []"
  by (simp add: js_trim_def js_whitespace_def startsWith_def)

lemma js_trim_empty: "js_trim [] = []"
  by (simp add: js_trim_def)


section \<open>What one event does to the cells\<close>

lemma handleStreamEvent_appends:
  "\<exists>ms. messages (handleStreamEvent r e s) = messages s @ ms"
  by (simp add: handleStreamEvent_def addMessage_def Let_def)

lemma fold_handleStreamEvent_appends:
  "\<exists>ms. messages (fold (handleStreamEvent r) es s) = messages s @ ms"
proof (induction es arbitrary: s)
  case Nil
  show ?case by simp
next
  case (Cons e es)
  obtain m1 where 1: "messages (handleStreamEvent r e s) = messages s @ m1"
    using handleStreamEvent_appends by blast
  obtain m2 where 2: "messages (fold (handleStreamEvent r) es (handleStreamEvent r e s)) =
      messages (handleStreamEvent r e s) @ m2"
    using Cons.IH by blast
  from 1 2 show ?case by simp
qed

lemma handleStreamEvent_currentStep:
  "currentStep (handleStreamEvent r e s) =
     (if ev_type e \<in> {''step'', ''research'', ''analysis'', ''season'', ''planning''}
      then currentStep s + 1
      else if ev_type e = ''result'' then 8 else currentStep s)"
  by (simp add: handleStreamEvent_def addMessage_def Let_def)

lemma fold_handleStreamEvent_currentStep:
  "currentStep (fold (handleStreamEvent r) es s) =
     fold (\<lambda>e n. if ev_type e \<in> {''step'', ''research'', ''analysis'', ''season'', ''planning''}
                  then n + 1
                  else if ev_type e = ''result'' then 8 else n) es (currentStep s)"
  by (induction es arbitrary: s) (simp_all only: fold_simps handleStreamEvent_currentStep o_apply)

lemma handleStreamEvent_interruptData:
  "ev_type e \<noteq> ''interrupt'' \<Longrightarrow> interruptData (handleStreamEvent r e s) = interruptData s"
  by (simp add: handleStreamEvent_def addMessage_def Let_def)

lemma fold_handleStreamEvent_interruptData:
  "\<forall>e \<in> set es. ev_type e \<noteq> ''interrupt'' \<Longrightarrow>
   interruptData (fold (handleStreamEvent r) es s) = interruptData s"
  by (induction es arbitrary: s) (simp_all add: handleStreamEvent_interruptData)

lemma handleStreamEvent_conversationId_bound:
  "truthy_str (conversationId r) \<Longrightarrow> conversationId (handleStreamEvent r e s) = conversationId s"
  by (simp add: handleStreamEvent_def addMessage_def Let_def)


lemma fold_handleStreamEvent_conversationId_bound:
  "truthy_str (conversationId r) \<Longrightarrow>
   conversationId (fold (handleStreamEvent r) es s) = conversationId s"
  by (induction es arbitrary: s) (simp_all add: handleStreamEvent_conversationId_bound)

text \<open>While the rendering a handler belongs to has no identifier, every event that
  carries one writes it to the cell, whatever the cell holds by then.\<close>

lemma handleStreamEvent_conversationId_unbound:
  "\<not> truthy_str (conversationId r) \<Longrightarrow> truthy_str (ev_conversation_id e) \<Longrightarrow>
   conversationId (handleStreamEvent r e s) = ev_conversation_id e"
  by (simp add: handleStreamEvent_def addMessage_def Let_def)

section \<open>The handlers past their guards\<close>

lemma handleSubmit_accepted:
  assumes "js_trim (input r) \<noteq> []" and "\<not> isLoading r"
  shows "handleSubmit env r s =
     (let userMessage = js_trim (input r);
          arg = (if truthy_str (conversationId r) then conversationId r else None);
          gen = streamChat env userMessage arg;
          s3 = fold (handleStreamEvent r) (events_of (fst gen))
                 (addMessage \<lparr>msg_type = User, msg_step = None, msg_content = JStr userMessage,
                               msg_data = Plain JUndefined\<rparr>
                    (s\<lparr>input := [], isLoading := True, currentStep := 0, interruptData := None,
                       selectedSeason := JNull\<rparr>));
          s4 = (case snd gen of None \<Rightarrow> s3 | Some err \<Rightarrow> addMessage catch_message s3)
      in Returned (s4\<lparr>isLoading := False\<rparr>) [streamChat_request userMessage arg])"
  using assms by (simp add: handleSubmit_def Let_def)

lemma handleInterruptResponse_accepted:
  assumes "truthy_str (conversationId r)" and "interruptData r = Some ci"
  shows "handleInterruptResponse env r v s =
     (let responseText =
               (if int_type ci = Some ''destination_selection''
                then (let selectedOption =
                            (case int_options ci of
                               None \<Rightarrow> JUndefined
                             | Some opts \<Rightarrow> js_elem opts v)
                      in if truthy (js_get selectedOption ''name'')
                         then js_get selectedOption ''name''
                         else JStr (''Option '' @ js_to_string v))
                else JStr (js_to_string v));
          gen = resumeChat env (the (conversationId r)) v;
          s3 = fold (handleStreamEvent r) (events_of (fst gen))
                 (addMessage \<lparr>msg_type = User, msg_step = None, msg_content = responseText,
                               msg_data = Plain JUndefined\<rparr>
                    (s\<lparr>isLoading := True, interruptData := None, userResponse := []\<rparr>));
          s4 = (case snd gen of None \<Rightarrow> s3 | Some err \<Rightarrow> addMessage catch_message s3)
      in Returned (s4\<lparr>isLoading := False\<rparr>) [resumeChat_request (the (conversationId r)) v])"
  using assms by (simp add: handleInterruptResponse_def Let_def)

text \<open>A handler of a rendering that has an identifier leaves the cell's identifier as
  it is, whatever the events of its stream carry.\<close>

lemma handlers_keep_bound_conversationId:
  assumes "truthy_str (conversationId r)"
  shows "state_of (handleSubmit env r s) = Some s' \<Longrightarrow> conversationId s' = conversationId s"
    and "state_of (handleInterruptResponse env r v s) = Some s' \<Longrightarrow>
         conversationId s' = conversationId s"
proof -
  have fin: "conversationId ((case x of None \<Rightarrow> s3 | Some err \<Rightarrow> addMessage m s3)\<lparr>isLoading := False\<rparr>)
      = conversationId s3" for x s3 m
    by (simp add: addMessage_def split: option.splits)
  show "state_of (handleSubmit env r s) = Some s' \<Longrightarrow> conversationId s' = conversationId s"
    by (cases "js_trim (input r) = [] \<or> isLoading r")
       (auto simp: handleSubmit_def Let_def fin addMessage_def
          fold_handleStreamEvent_conversationId_bound [OF assms])
  show "state_of (handleInterruptResponse env r v s) = Some s' \<Longrightarrow>
         conversationId s' = conversationId s"
    by (cases "interruptData r = None")
       (auto simp: handleInterruptResponse_def Let_def fin addMessage_def assms
          fold_handleStreamEvent_conversationId_bound [OF assms])
qed

lemma currentStep_finish:
  "currentStep ((case x of None \<Rightarrow> s3 | Some err \<Rightarrow> addMessage m s3)\<lparr>isLoading := False\<rparr>) = currentStep s3"
  by (simp add: addMessage_def split: option.splits)

section \<open>The page's properties\<close>

text \<open>
  Claim C8. An event tagged \<open>step\<close>, \<open>research\<close>, \<open>analysis\<close>, \<open>season\<close> or
  \<open>planning\<close> adds one to \<open>currentStep\<close> and appends one message of that type, with
  the event's step label and data; a \<open>result\<close> event sets \<open>currentStep\<close> to 8 and appends
  one \<open>result\<close> message holding the event. After an accepted \<open>handleSubmit\<close> the counter
  is what the events of the stream make of 0; after an accepted
  \<open>handleInterruptResponse\<close> it is what they make of the counter as it stood: a
  submission resets it, an answer does not.
\<close>

theorem progress_counter_follows_events:
  "(map_of [(''step'', Step), (''research'', Research), (''analysis'', Analysis),
            (''season'', Season), (''planning'', Planning)] (ev_type e) = Some k
      \<longrightarrow> currentStep (handleStreamEvent r e s) = currentStep s + 1
        \<and> (\<exists>m. messages (handleStreamEvent r e s) = messages s @ [m]
               \<and> msg_type m = k \<and> msg_step m = ev_step e \<and> msg_data m = Plain (ev_data e)))
   \<and> (ev_type e = ''result''
      \<longrightarrow> currentStep (handleStreamEvent r e s) = 8
        \<and> (\<exists>m. messages (handleStreamEvent r e s) = messages s @ [m]
               \<and> msg_type m = Result \<and> msg_data m = WholeEvent e))
   \<and> (js_trim (input r) \<noteq> [] \<and> \<not> isLoading r
      \<longrightarrow> (\<exists>s'. state_of (handleSubmit env r s) = Some s'
             \<and> currentStep s' =
                 fold (\<lambda>e n. if ev_type e \<in> {''step'', ''research'', ''analysis'', ''season'', ''planning''}
                              then n + 1
                              else if ev_type e = ''result'' then 8 else n)
                   (events_of (fst (streamChat env (js_trim (input r))
                      (if truthy_str (conversationId r) then conversationId r else None))))
                   0))
   \<and> (truthy_str (conversationId r) \<and> interruptData r \<noteq> None
      \<longrightarrow> (\<exists>s'. state_of (handleInterruptResponse env r v s) = Some s'
             \<and> currentStep s' =
                 fold (\<lambda>e n. if ev_type e \<in> {''step'', ''research'', ''analysis'', ''season'', ''planning''}
                              then n + 1
                              else if ev_type e = ''result'' then 8 else n)
                   (events_of (fst (resumeChat env (the (conversationId r)) v)))
                   (currentStep s)))"
proof (intro conjI impI)
  assume "map_of [(''step'', Step), (''research'', Research), (''analysis'', Analysis),
            (''season'', Season), (''planning'', Planning)] (ev_type e) = Some k"
  then have k: "ev_type e = ''step'' \<and> k = Step \<or> ev_type e = ''research'' \<and> k = Research
      \<or> ev_type e = ''analysis'' \<and> k = Analysis \<or> ev_type e = ''season'' \<and> k = Season
      \<or> ev_type e = ''planning'' \<and> k = Planning"
    by (simp split: if_splits)
  then show "currentStep (handleStreamEvent r e s) = currentStep s + 1"
    by (auto simp: handleStreamEvent_currentStep)
  from k show "\<exists>m. messages (handleStreamEvent r e s) = messages s @ [m]
               \<and> msg_type m = k \<and> msg_step m = ev_step e \<and> msg_data m = Plain (ev_data e)"
    by (auto simp: handleStreamEvent_def addMessage_def Let_def)
next
  assume "ev_type e = ''result''"
  then show "currentStep (handleStreamEvent r e s) = 8"
    by (simp add: handleStreamEvent_currentStep)
  assume "ev_type e = ''result''"
  then show "\<exists>m. messages (handleStreamEvent r e s) = messages s @ [m]
               \<and> msg_type m = Result \<and> msg_data m = WholeEvent e"
    by (simp add: handleStreamEvent_def addMessage_def Let_def)
next
  assume "js_trim (input r) \<noteq> [] \<and> \<not> isLoading r"
  then show "\<exists>s'. state_of (handleSubmit env r s) = Some s'
             \<and> currentStep s' =
                 fold (\<lambda>e n. if ev_type e \<in> {''step'', ''research'', ''analysis'', ''season'', ''planning''}
                              then n + 1
                              else if ev_type e = ''result'' then 8 else n)
                   (events_of (fst (streamChat env (js_trim (input r))
                      (if truthy_str (conversationId r) then conversationId r else None))))
                   0"
    by (simp add: handleSubmit_accepted Let_def currentStep_finish
        fold_handleStreamEvent_currentStep addMessage_def)
next
  assume "truthy_str (conversationId r) \<and> interruptData r \<noteq> None"
  then obtain ci where "truthy_str (conversationId r)" "interruptData r = Some ci" by auto
  then show "\<exists>s'. state_of (handleInterruptResponse env r v s) = Some s'
             \<and> currentStep s' =
                 fold (\<lambda>e n. if ev_type e \<in> {''step'', ''research'', ''analysis'', ''season'', ''planning''}
                              then n + 1
                              else if ev_type e = ''result'' then 8 else n)
                   (events_of (fst (resumeChat env (the (conversationId r)) v)))
                   (currentStep s)"
    by (simp add: handleInterruptResponse_accepted Let_def currentStep_finish
        fold_handleStreamEvent_currentStep addMessage_def)
qed


text \<open>The scenario of the step frame: from a counter of 3, a step event gives 4 and a
  result event 8; a submission whose stream holds the step frame ends at 1, an answer at
  4.\<close>

theorem progress_counter_follows_events_witness:
  "(let estep = (plain_event ''step'')\<lparr>ev_step := Some ''Analyzing'',
                                         ev_content := Some ''Looking at options''\<rparr>;
        eresult = (plain_event ''result'')\<lparr>ev_content := Some ''Done''\<rparr>;
        env = ascii_platform
                (\<lambda>p. if p = ''{\"type\":\"step\",\"step\":\"Analyzing\",\"content\":\"Looking at options\"}''
                     then Some estep else None)
                (\<lambda>q. Some (ok_response
                   [''data: {\"type\":\"step\",\"step\":\"Analyzing\",\"content\":\"Looking at options\"}\<newline>'']));
        s = (Home_initial ''Welcome'')
              \<lparr>input := ''to Kyoto'', conversationId := Some ''c1'', currentStep := 3,
               interruptData := Some \<lparr>int_type = Some ''question'', int_question = ''When?'',
                 int_field = Some ''season'', int_options = None, int_missing_info = None,
                 int_budget_allocation = JUndefined\<rparr>\<rparr>
    in currentStep (handleStreamEvent s estep s) = 4
     \<and> map msg_type (messages (handleStreamEvent s estep s)) = [System, Step]
     \<and> currentStep (handleStreamEvent s eresult s) = 8
     \<and> map msg_type (messages (handleStreamEvent s eresult s)) = [System, Result]
     \<and> map_option currentStep (state_of (handleSubmit env s s)) = Some 1
     \<and> map_option currentStep (state_of (handleInterruptResponse env s (JStr ''summer'') s)) = Some 4)"
proof -
  define estep where "estep = (plain_event ''step'')\<lparr>ev_step := Some ''Analyzing'',
                                         ev_content := Some ''Looking at options''\<rparr>"
  define eresult where "eresult = (plain_event ''result'')\<lparr>ev_content := Some ''Done''\<rparr>"
  define env where "env = ascii_platform
                (\<lambda>p. if p = ''{\"type\":\"step\",\"step\":\"Analyzing\",\"content\":\"Looking at options\"}''
                     then Some estep else None)
                (\<lambda>q. Some (ok_response
                   [''data: {\"type\":\"step\",\"step\":\"Analyzing\",\"content\":\"Looking at options\"}\<newline>'']))"
  define s where "s = (Home_initial ''Welcome'')
              \<lparr>input := ''to Kyoto'', conversationId := Some ''c1'', currentStep := 3,
               interruptData := Some \<lparr>int_type = Some ''question'', int_question = ''When?'',
                 int_field = Some ''season'', int_options = None, int_missing_info = None,
                 int_budget_allocation = JUndefined\<rparr>\<rparr>"
  have ty: "ev_type estep = ''step''" "ev_type eresult = ''result''"
    by (simp_all add: estep_def eresult_def plain_event_def)
  have st: "currentStep s = 3" "messages s = [\<lparr>msg_type = System, msg_step = None,
       msg_content = JStr ''Welcome'', msg_data = Plain JUndefined\<rparr>]"
    "js_trim (input s) \<noteq> []" "\<not> isLoading s" "truthy_str (conversationId s)"
    "interruptData s \<noteq> None"
    by (simp_all add: s_def Home_initial_def js_trim_to_Kyoto js_trim_hi)
  have gen: "events_of (fst (streamChat env m c)) = [estep]"
            "events_of (fst (resumeChat env c' v)) = [estep]" for m c c' v
    by (simp_all add: streamChat_def resumeChat_def env_def ascii_platform_def ok_response_def
        streamChat_response_def resumeChat_response_def Let_def startsWith_def events_of_simps)
  note a = progress_counter_follows_events [of estep Step s s env "JStr ''summer''"]
  note b = progress_counter_follows_events [of eresult Result s s env "JStr ''summer''"]
  have 1: "currentStep (handleStreamEvent s estep s) = 4"
    and 2: "map msg_type (messages (handleStreamEvent s estep s)) = [System, Step]"
    using a ty st by auto
  have 3: "currentStep (handleStreamEvent s eresult s) = 8"
    and 4: "map msg_type (messages (handleStreamEvent s eresult s)) = [System, Result]"
    using b ty st by auto
  have 5: "map_option currentStep (state_of (handleSubmit env s s)) = Some 1"
    using a st ty by (auto simp: gen)
  have 6: "map_option currentStep (state_of (handleInterruptResponse env s (JStr ''summer'') s)) = Some 4"
    using a st ty by (auto simp: gen)
  from 1 2 3 4 5 6 show ?thesis
    unfolding Let_def estep_def [symmetric] eresult_def [symmetric] env_def [symmetric]
      s_def [symmetric]
    by blast
qed


lemma streamChat_non_ok:
  "fetch env (streamChat_request m c) = Some resp \<Longrightarrow> \<not> ok resp \<Longrightarrow>
   streamChat env m c = ([], Some (HttpError (status resp)))"
  by (simp add: streamChat_def streamChat_response_def)

lemma resumeChat_non_ok:
  "fetch env (resumeChat_request c v) = Some resp \<Longrightarrow> \<not> ok resp \<Longrightarrow>
   resumeChat env c v = ([], Some (HttpError (status resp)))"
  by (simp add: resumeChat_def resumeChat_response_def)

text \<open>
  Claim C5. When the transport answers the request of a session with a status that is
  not 2xx, the generator throws before it yields anything; the handler that opened the
  session (an accepted \<open>handleSubmit\<close>, or an accepted \<open>handleInterruptResponse\<close>)
  appends the user's message and exactly one error message, nothing else, and leaves the
  page not loading and with no pending interrupt.
\<close>

theorem non_2xx_adds_one_error_and_ends_idle:
  "(js_trim (input r) \<noteq> [] \<and> \<not> isLoading r
      \<and> fetch env (streamChat_request (js_trim (input r))
           (if truthy_str (conversationId r) then conversationId r else None)) = Some resp
      \<and> \<not> ok resp
    \<longrightarrow> streamChat env (js_trim (input r))
           (if truthy_str (conversationId r) then conversationId r else None)
          = ([], Some (HttpError (status resp)))
      \<and> (\<exists>s'. state_of (handleSubmit env r s) = Some s'
             \<and> messages s' = messages s @
                  [\<lparr>msg_type = User, msg_step = None, msg_content = JStr (js_trim (input r)),
                    msg_data = Plain JUndefined\<rparr>,
                   catch_message]
             \<and> msg_type catch_message = Error
             \<and> isLoading s' = False \<and> interruptData s' = None))
   \<and> (truthy_str (conversationId r) \<and> interruptData r = Some ci
      \<and> fetch env (resumeChat_request (the (conversationId r)) v) = Some resp
      \<and> \<not> ok resp
    \<longrightarrow> resumeChat env (the (conversationId r)) v = ([], Some (HttpError (status resp)))
      \<and> (\<exists>s' echo. state_of (handleInterruptResponse env r v s) = Some s'
             \<and> messages s' = messages s @ [echo, catch_message]
             \<and> msg_type echo = User
             \<and> isLoading s' = False \<and> interruptData s' = None))"
proof (intro conjI impI)
  assume a: "js_trim (input r) \<noteq> [] \<and> \<not> isLoading r
      \<and> fetch env (streamChat_request (js_trim (input r))
           (if truthy_str (conversationId r) then conversationId r else None)) = Some resp
      \<and> \<not> ok resp"
  then show g: "streamChat env (js_trim (input r))
           (if truthy_str (conversationId r) then conversationId r else None)
          = ([], Some (HttpError (status resp)))"
    by (simp add: streamChat_non_ok)
  from a show "\<exists>s'. state_of (handleSubmit env r s) = Some s'
             \<and> messages s' = messages s @
                  [\<lparr>msg_type = User, msg_step = None, msg_content = JStr (js_trim (input r)),
                    msg_data = Plain JUndefined\<rparr>,
                   catch_message]
             \<and> msg_type catch_message = Error
             \<and> isLoading s' = False \<and> interruptData s' = None"
    by (simp add: handleSubmit_accepted Let_def g events_of_simps addMessage_def catch_message_def)
next
  assume a: "truthy_str (conversationId r) \<and> interruptData r = Some ci
      \<and> fetch env (resumeChat_request (the (conversationId r)) v) = Some resp
      \<and> \<not> ok resp"
  then show g: "resumeChat env (the (conversationId r)) v = ([], Some (HttpError (status resp)))"
    by (simp add: resumeChat_non_ok)
  from a have acc: "truthy_str (conversationId r)" "interruptData r = Some ci" by simp_all
  show "\<exists>s' echo. state_of (handleInterruptResponse env r v s) = Some s'
             \<and> messages s' = messages s @ [echo, catch_message]
             \<and> msg_type echo = User
             \<and> isLoading s' = False \<and> interruptData s' = None"
    by (simp add: handleInterruptResponse_accepted [OF acc] Let_def g events_of_simps
        addMessage_def)
qed


text \<open>The scenario of the status 500, for a submission and for an answer.\<close>

theorem non_2xx_adds_one_error_and_ends_idle_witness:
  "(let env = ascii_platform (\<lambda>p. None) (\<lambda>q. Some \<lparr>ok = False, status = 500, body = None\<rparr>);
        s = (Home_initial ''Welcome'')
              \<lparr>input := ''to Kyoto'', conversationId := Some ''c1'', currentStep := 3,
               interruptData := Some \<lparr>int_type = Some ''question'', int_question = ''When?'',
                 int_field = Some ''season'', int_options = None, int_missing_info = None,
                 int_budget_allocation = JUndefined\<rparr>\<rparr>
    in streamChat env ''to Kyoto'' (Some ''c1'') = ([], Some (HttpError 500))
     \<and> map_option (\<lambda>s'. (map msg_type (messages s'), isLoading s', interruptData s'))
          (state_of (handleSubmit env s s)) = Some ([System, User, Error], False, None)
     \<and> resumeChat env ''c1'' (JStr ''summer'') = ([], Some (HttpError 500))
     \<and> map_option (\<lambda>s'. (map msg_type (messages s'), isLoading s', interruptData s'))
          (state_of (handleInterruptResponse env s (JStr ''summer'') s))
         = Some ([System, User, Error], False, None))"
proof -
  define env where "env = ascii_platform (\<lambda>p. None) (\<lambda>q. Some \<lparr>ok = False, status = 500, body = None\<rparr>)"
  define ci where "ci = \<lparr>int_type = Some ''question'', int_question = ''When?'',
                 int_field = Some ''season'', int_options = None, int_missing_info = None,
                 int_budget_allocation = JUndefined\<rparr>"
  define s where "s = (Home_initial ''Welcome'')
              \<lparr>input := ''to Kyoto'', conversationId := Some ''c1'', currentStep := 3,
               interruptData := Some ci\<rparr>"
  have st: "js_trim (input s) = ''to Kyoto''" "\<not> isLoading s" "conversationId s = Some ''c1''"
    "interruptData s = Some ci"
    "messages s = [\<lparr>msg_type = System, msg_step = None,
       msg_content = JStr ''Welcome'', msg_data = Plain JUndefined\<rparr>]"
    by (simp_all add: s_def Home_initial_def js_trim_to_Kyoto js_trim_hi)
  have net: "fetch env q = Some \<lparr>ok = False, status = 500, body = None\<rparr>" for q
    by (simp add: env_def ascii_platform_def)
  note a = non_2xx_adds_one_error_and_ends_idle
    [where r = s and s = s and env = env and ci = ci and v = "JStr ''summer''"
       and resp = "\<lparr>ok = False, status = 500, body = None\<rparr>"]
  have 1: "streamChat env ''to Kyoto'' (Some ''c1'') = ([], Some (HttpError 500))"
    and 2: "map_option (\<lambda>s'. (map msg_type (messages s'), isLoading s', interruptData s'))
          (state_of (handleSubmit env s s)) = Some ([System, User, Error], False, None)"
    using a st net by auto
  have 3: "resumeChat env ''c1'' (JStr ''summer'') = ([], Some (HttpError 500))"
    and 4: "map_option (\<lambda>s'. (map msg_type (messages s'), isLoading s', interruptData s'))
          (state_of (handleInterruptResponse env s (JStr ''summer'') s))
         = Some ([System, User, Error], False, None)"
    using a st net by auto
  from 1 2 3 4 show ?thesis
    unfolding Let_def env_def [symmetric] ci_def [symmetric] s_def [symmetric]
    by blast
qed

lemma messages_finish:
  "\<exists>ms. messages ((case x of None \<Rightarrow> s3 | Some err \<Rightarrow> addMessage m s3)\<lparr>isLoading := False\<rparr>)
     = messages s3 @ ms"
  by (simp add: addMessage_def split: option.splits)

text \<open>
  Claim C9. When the pending interrupt is a \<open>destination_selection\<close> and the answer is
  the position \<open>i\<close> of one of its options, \<open>handleInterruptResponse\<close> sends one request
  to \<open>/chat/resume\<close> whose \<open>value\<close> is \<open>i\<close> itself, and the message it appends first
  is the user's, with the option's \<open>name\<close> as content, or \<open>Option i\<close> when the option
  has no name (none, or one that is empty or otherwise falsy).
\<close>

theorem selection_echoes_name_and_forwards_index:
  assumes "truthy_str (conversationId r)" and "interruptData r = Some ci"
    and "int_type ci = Some ''destination_selection''"
    and "int_options ci = Some opts" and "i < length opts"
  shows "\<exists>s' ms. handleInterruptResponse env r (JNum (int i)) s =
           Returned s'
             [\<lparr>url = ''/chat/resume'',
               payload = JObj [(''conversation_id'', JStr (the (conversationId r))),
                               (''value'', JNum (int i))]\<rparr>]
         \<and> messages s' = messages s @
             \<lparr>msg_type = User, msg_step = None,
              msg_content = (if truthy (js_get (opts ! i) ''name'')
                             then js_get (opts ! i) ''name''
                             else JStr (''Option '' @ show_nat i)),
              msg_data = Plain JUndefined\<rparr> # ms"
proof -
  let ?echo = "\<lparr>msg_type = User, msg_step = None,
              msg_content = (if truthy (js_get (opts ! i) ''name'')
                             then js_get (opts ! i) ''name''
                             else JStr (''Option '' @ show_nat i)),
              msg_data = Plain JUndefined\<rparr>"
  let ?gen = "resumeChat env (the (conversationId r)) (JNum (int i))"
  let ?s2 = "addMessage ?echo (s\<lparr>isLoading := True, interruptData := None, userResponse := []\<rparr>)"
  let ?s3 = "fold (handleStreamEvent r) (events_of (fst ?gen)) ?s2"
  let ?s5 = "(case snd ?gen of None \<Rightarrow> ?s3 | Some err \<Rightarrow> addMessage catch_message ?s3)
               \<lparr>isLoading := False\<rparr>"
  have run: "handleInterruptResponse env r (JNum (int i)) s =
      Returned ?s5 [resumeChat_request (the (conversationId r)) (JNum (int i))]"
    using assms(3-5)
    by (cases "snd ?gen"; cases "truthy (js_get (opts ! i) ''name'')")
       (simp_all add: handleInterruptResponse_accepted [OF assms(1,2)] Let_def)
  obtain m1 where 1: "messages ?s3 = messages ?s2 @ m1"
    using fold_handleStreamEvent_appends by blast
  obtain m2 where 2: "messages ?s5 = messages ?s3 @ m2"
    using messages_finish by blast
  have "messages ?s5 = messages s @ ?echo # (m1 @ m2)"
    using 1 2 by (simp add: addMessage_def)
  with run show ?thesis
    by (simp add: resumeChat_request_def)
qed


text \<open>The scenario of Kyoto and Lisbon: the answer 1 is echoed as \<open>Lisbon\<close> and sent as
  \<open>value: 1\<close>; the answer 2, an option without a name, is echoed as \<open>Option 2\<close>.\<close>

theorem selection_echoes_name_and_forwards_index_witness:
  "(let env = ascii_platform (\<lambda>p. None) (\<lambda>q. Some (ok_response []));
        opts = [JObj [(''name'', JStr ''Kyoto'')], JObj [(''name'', JStr ''Lisbon'')],
                JObj [(''description'', JStr ''unnamed'')]];
        s = (Home_initial ''Welcome'')
              \<lparr>conversationId := Some ''c1'',
               interruptData := Some \<lparr>int_type = Some ''destination_selection'',
                 int_question = ''Pick one'', int_field = None, int_options = Some opts,
                 int_missing_info = None, int_budget_allocation = JUndefined\<rparr>\<rparr>
    in requests_of (handleInterruptResponse env s (JNum 1) s) =
         [\<lparr>url = ''/chat/resume'',
           payload = JObj [(''conversation_id'', JStr ''c1''), (''value'', JNum 1)]\<rparr>]
     \<and> map_option (\<lambda>s'. map msg_content (take 2 (messages s')))
          (state_of (handleInterruptResponse env s (JNum 1) s))
         = Some [JStr ''Welcome'', JStr ''Lisbon'']
     \<and> map_option (\<lambda>s'. map msg_content (take 2 (messages s')))
          (state_of (handleInterruptResponse env s (JNum 2) s))
         = Some [JStr ''Welcome'', JStr ''Option 2''])"
proof -
  define env where "env = ascii_platform (\<lambda>p. None) (\<lambda>q. Some (ok_response []))"
  define opts where "opts = [JObj [(''name'', JStr ''Kyoto'')], JObj [(''name'', JStr ''Lisbon'')],
                JObj [(''description'', JStr ''unnamed'')]]"
  define ci where "ci = \<lparr>int_type = Some ''destination_selection'',
                 int_question = ''Pick one'', int_field = None, int_options = Some opts,
                 int_missing_info = None, int_budget_allocation = JUndefined\<rparr>"
  define s where "s = (Home_initial ''Welcome'')
              \<lparr>conversationId := Some ''c1'', interruptData := Some ci\<rparr>"
  have h1: "truthy_str (conversationId s)" by (simp add: s_def)
  have h2: "interruptData s = Some ci" by (simp add: s_def)
  have h3: "int_type ci = Some ''destination_selection''" by (simp add: ci_def)
  have h4: "int_options ci = Some opts" by (simp add: ci_def)
  have i1: "(1::nat) < length opts" and i2: "(2::nat) < length opts" by (simp_all add: opts_def)
  have st: "messages s = [\<lparr>msg_type = System, msg_step = None,
       msg_content = JStr ''Welcome'', msg_data = Plain JUndefined\<rparr>]"
    "conversationId s = Some ''c1''"
    by (simp_all add: s_def Home_initial_def)
  have el: "opts ! 1 = JObj [(''name'', JStr ''Lisbon'')]"
    "opts ! Suc 0 = JObj [(''name'', JStr ''Lisbon'')]"
    "opts ! 2 = JObj [(''description'', JStr ''unnamed'')]"
    by (simp_all add: opts_def)
  have sh: "show_nat 2 = ''2''" by (simp add: show_nat.simps)
  from selection_echoes_name_and_forwards_index [OF h1 h2 h3 h4 i1, of env s]
  have 1: "requests_of (handleInterruptResponse env s (JNum 1) s) =
         [\<lparr>url = ''/chat/resume'',
           payload = JObj [(''conversation_id'', JStr ''c1''), (''value'', JNum 1)]\<rparr>]"
    and 2: "map_option (\<lambda>s'. map msg_content (take 2 (messages s')))
          (state_of (handleInterruptResponse env s (JNum 1) s))
         = Some [JStr ''Welcome'', JStr ''Lisbon'']"
    by (auto simp: st el)
  from selection_echoes_name_and_forwards_index [OF h1 h2 h3 h4 i2, of env s]
  have 3: "map_option (\<lambda>s'. map msg_content (take 2 (messages s')))
          (state_of (handleInterruptResponse env s (JNum 2) s))
         = Some [JStr ''Welcome'', JStr ''Option 2'']"
    by (auto simp: st el sh)
  from 1 2 3 show ?thesis
    unfolding Let_def env_def [symmetric] opts_def [symmetric] ci_def [symmetric]
      s_def [symmetric]
    by blast
qed

text \<open>
  Claim C6 says that an answer given when no interrupt is pending fails with a
  precondition error. On a page just loaded (no identifier, no interrupt) the handler
  throws nothing: it returns, with the cells as they were and no request sent.
\<close>

theorem answer_outside_awaiting_raises_nothing:
  "\<not> is_Threw (submitAnswer (ascii_platform (\<lambda>p. None) (\<lambda>q. None)) (JNum 0)
                  (Home_initial ''Welcome''))
   \<and> submitAnswer (ascii_platform (\<lambda>p. None) (\<lambda>q. None)) (JNum 0) (Home_initial ''Welcome'')
       = Returned (Home_initial ''Welcome'') []"
  by (simp add: submitAnswer_def handleInterruptResponse_def Home_initial_def)

text \<open>
  Claim C6, amended. \<open>handleInterruptResponse\<close> called when no identifier is bound or no
  interrupt is pending returns at once: no error, no change of the cells, no request.
  Called on a page that awaits an answer, it sends one request to \<open>/chat/resume\<close> and
  clears the pending interrupt; unless the resumed stream brings a new interrupt, a second
  answer then finds none pending and is ignored in the same way.
\<close>

theorem answer_is_ignored_unless_awaiting:
  "(\<not> truthy_str (conversationId r) \<or> interruptData r = None
      \<longrightarrow> handleInterruptResponse env r v s = Returned s [])
   \<and> (truthy_str (conversationId s) \<and> interruptData s \<noteq> None
       \<and> (\<forall>e \<in> set (events_of (fst (resumeChat env (the (conversationId s)) v))).
             ev_type e \<noteq> ''interrupt'')
      \<longrightarrow> (\<exists>s'. submitAnswer env v s = Returned s' [resumeChat_request (the (conversationId s)) v]
             \<and> interruptData s' = None
             \<and> submitAnswer env v' s' = Returned s' []))"
proof (intro conjI impI)
  assume "\<not> truthy_str (conversationId r) \<or> interruptData r = None"
  then show "handleInterruptResponse env r v s = Returned s []"
    by (auto simp: handleInterruptResponse_def)
next
  assume a: "truthy_str (conversationId s) \<and> interruptData s \<noteq> None
       \<and> (\<forall>e \<in> set (events_of (fst (resumeChat env (the (conversationId s)) v))).
             ev_type e \<noteq> ''interrupt'')"
  then obtain ci where acc: "truthy_str (conversationId s)" "interruptData s = Some ci" by auto
  from a have quiet: "\<forall>e \<in> set (events_of (fst (resumeChat env (the (conversationId s)) v))).
             ev_type e \<noteq> ''interrupt''" by simp
  obtain s' where run: "handleInterruptResponse env s v s =
      Returned s' [resumeChat_request (the (conversationId s)) v]"
    and s': "interruptData s' = interruptData
       (fold (handleStreamEvent s) (events_of (fst (resumeChat env (the (conversationId s)) v)))
          (addMessage \<lparr>msg_type = User, msg_step = None,
             msg_content =
               (if int_type ci = Some ''destination_selection''
                then (let selectedOption =
                            (case int_options ci of
                               None \<Rightarrow> JUndefined
                             | Some opts \<Rightarrow> js_elem opts v)
                      in if truthy (js_get selectedOption ''name'')
                         then js_get selectedOption ''name''
                         else JStr (''Option '' @ js_to_string v))
                else JStr (js_to_string v)),
             msg_data = Plain JUndefined\<rparr>
             (s\<lparr>isLoading := True, interruptData := None, userResponse := []\<rparr>)))"
    by (cases "snd (resumeChat env (the (conversationId s)) v)")
       (simp_all add: handleInterruptResponse_accepted [OF acc] Let_def addMessage_def)
  from s' have none: "interruptData s' = None"
    by (simp add: fold_handleStreamEvent_interruptData [OF quiet] addMessage_def)
  then have "handleInterruptResponse env s' v' s' = Returned s' []"
    by (simp add: handleInterruptResponse_def)
  with run none show "\<exists>s'. submitAnswer env v s = Returned s' [resumeChat_request (the (conversationId s)) v]
             \<and> interruptData s' = None
             \<and> submitAnswer env v' s' = Returned s' []"
    by (simp add: submitAnswer_def)
qed


text \<open>An answer on a fresh page, and two answers in a row on a page that awaits one.\<close>

theorem answer_is_ignored_unless_awaiting_witness:
  "(let estep = (plain_event ''step'')\<lparr>ev_step := Some ''Analyzing'',
                                         ev_content := Some ''Looking at options''\<rparr>;
        env = ascii_platform
                (\<lambda>p. if p = ''{\"type\":\"step\",\"step\":\"Analyzing\",\"content\":\"Looking at options\"}''
                     then Some estep else None)
                (\<lambda>q. Some (ok_response
                   [''data: {\"type\":\"step\",\"step\":\"Analyzing\",\"content\":\"Looking at options\"}\<newline>'']));
        idle = Home_initial ''Welcome'';
        s = (Home_initial ''Welcome'')
              \<lparr>conversationId := Some ''c1'',
               interruptData := Some \<lparr>int_type = Some ''question'', int_question = ''When?'',
                 int_field = Some ''season'', int_options = None, int_missing_info = None,
                 int_budget_allocation = JUndefined\<rparr>\<rparr>
    in handleInterruptResponse env idle (JNum 0) idle = Returned idle []
     \<and> requests_of (submitAnswer env (JStr ''summer'') s) =
         [\<lparr>url = ''/chat/resume'',
           payload = JObj [(''conversation_id'', JStr ''c1''), (''value'', JStr ''summer'')]\<rparr>]
     \<and> (case state_of (submitAnswer env (JStr ''summer'') s) of
          None \<Rightarrow> False
        | Some s' \<Rightarrow> interruptData s' = None
                    \<and> submitAnswer env (JStr ''winter'') s' = Returned s' []))"
proof -
  define estep where "estep = (plain_event ''step'')\<lparr>ev_step := Some ''Analyzing'',
                                         ev_content := Some ''Looking at options''\<rparr>"
  define env where "env = ascii_platform
                (\<lambda>p. if p = ''{\"type\":\"step\",\"step\":\"Analyzing\",\"content\":\"Looking at options\"}''
                     then Some estep else None)
                (\<lambda>q. Some (ok_response
                   [''data: {\"type\":\"step\",\"step\":\"Analyzing\",\"content\":\"Looking at options\"}\<newline>'']))"
  define idle where "idle = Home_initial ''Welcome''"
  define s where "s = (Home_initial ''Welcome'')
              \<lparr>conversationId := Some ''c1'',
               interruptData := Some \<lparr>int_type = Some ''question'', int_question = ''When?'',
                 int_field = Some ''season'', int_options = None, int_missing_info = None,
                 int_budget_allocation = JUndefined\<rparr>\<rparr>"
  have gen: "events_of (fst (resumeChat env c v)) = [estep]" for c v
    by (simp add: resumeChat_def env_def ascii_platform_def ok_response_def
        resumeChat_response_def Let_def startsWith_def events_of_simps)
  have ty: "ev_type estep = ''step''" by (simp add: estep_def plain_event_def)
  have h0: "\<not> truthy_str (conversationId idle) \<or> interruptData idle = None"
    by (simp add: idle_def Home_initial_def)
  have h1: "truthy_str (conversationId s) \<and> interruptData s \<noteq> None
       \<and> (\<forall>e \<in> set (events_of (fst (resumeChat env (the (conversationId s)) (JStr ''summer'')))).
             ev_type e \<noteq> ''interrupt'')"
    by (simp add: gen ty) (simp add: s_def)
  have cid: "the (conversationId s) = ''c1''" by (simp add: s_def)
  from answer_is_ignored_unless_awaiting
         [where r = idle and s = idle and env = env and v = "JNum 0" and v' = "JStr ''winter''"] h0
  have 1: "handleInterruptResponse env idle (JNum 0) idle = Returned idle []" by blast
  from answer_is_ignored_unless_awaiting
         [where r = idle and s = s and env = env and v = "JStr ''summer''" and v' = "JStr ''winter''"] h1
  obtain s' where "submitAnswer env (JStr ''summer'') s =
      Returned s' [resumeChat_request (the (conversationId s)) (JStr ''summer'')]"
    "interruptData s' = None" "submitAnswer env (JStr ''winter'') s' = Returned s' []"
    by blast
  then have 2: "requests_of (submitAnswer env (JStr ''summer'') s) =
         [\<lparr>url = ''/chat/resume'',
           payload = JObj [(''conversation_id'', JStr ''c1''), (''value'', JStr ''summer'')]\<rparr>]"
    and 3: "(case state_of (submitAnswer env (JStr ''summer'') s) of
          None \<Rightarrow> False
        | Some s' \<Rightarrow> interruptData s' = None
                    \<and> submitAnswer env (JStr ''winter'') s' = Returned s' [])"
    by (simp_all add: cid resumeChat_request_def)
  from 1 2 3 show ?thesis
    unfolding Let_def estep_def [symmetric] env_def [symmetric] s_def [symmetric]
    unfolding idle_def [symmetric]
    by blast
qed

text \<open>
  Claim C7 says that a submission made while the page awaits an answer is rejected and
  opens no session. With an interrupt pending, the loading flag down and text in the
  input, \<open>handleSubmit\<close> does not throw and sends a request to \<open>/chat/stream\<close>.
\<close>

theorem submit_while_awaiting_opens_a_stream:
  "isLoading ((Home_initial ''Welcome'')
      \<lparr>input := ''to Kyoto'', conversationId := Some ''c1'',
       interruptData := Some \<lparr>int_type = Some ''question'', int_question = ''When?'',
         int_field = Some ''season'', int_options = None, int_missing_info = None,
         int_budget_allocation = JUndefined\<rparr>\<rparr>) = False
   \<and> interruptData ((Home_initial ''Welcome'')
      \<lparr>input := ''to Kyoto'', conversationId := Some ''c1'',
       interruptData := Some \<lparr>int_type = Some ''question'', int_question = ''When?'',
         int_field = Some ''season'', int_options = None, int_missing_info = None,
         int_budget_allocation = JUndefined\<rparr>\<rparr>) \<noteq> None
   \<and> \<not> is_Threw (submitMessage (ascii_platform (\<lambda>p. None) (\<lambda>q. Some (ok_response [])))
        ((Home_initial ''Welcome'')
          \<lparr>input := ''to Kyoto'', conversationId := Some ''c1'',
           interruptData := Some \<lparr>int_type = Some ''question'', int_question = ''When?'',
             int_field = Some ''season'', int_options = None, int_missing_info = None,
             int_budget_allocation = JUndefined\<rparr>\<rparr>))
   \<and> requests_of (submitMessage (ascii_platform (\<lambda>p. None) (\<lambda>q. Some (ok_response [])))
        ((Home_initial ''Welcome'')
          \<lparr>input := ''to Kyoto'', conversationId := Some ''c1'',
           interruptData := Some \<lparr>int_type = Some ''question'', int_question = ''When?'',
             int_field = Some ''season'', int_options = None, int_missing_info = None,
             int_budget_allocation = JUndefined\<rparr>\<rparr>))
       = [\<lparr>url = ''/chat/stream'',
           payload = JObj [(''message'', JStr ''to Kyoto''), (''conversation_id'', JStr ''c1'')]\<rparr>]"
  by (simp add: submitMessage_def handleSubmit_def Home_initial_def js_trim_to_Kyoto js_trim_hi
      Let_def streamChat_request_def)

text \<open>
  Claim C7, amended. \<open>handleSubmit\<close> returns at once (no error, no change of the cells,
  no request) when the loading flag is up or the trimmed input is empty. It does not look
  at the pending interrupt: in every other case, also while the page awaits an answer, it
  throws nothing and sends exactly one request to \<open>/chat/stream\<close>, and unless the stream
  brings a new interrupt it ends with no interrupt pending and not loading.
\<close>

theorem submit_is_ignored_only_when_loading_or_blank:
  "(js_trim (input r) = [] \<or> isLoading r \<longrightarrow> handleSubmit env r s = Returned s [])
   \<and> (js_trim (input r) \<noteq> [] \<and> \<not> isLoading r
      \<longrightarrow> \<not> is_Threw (handleSubmit env r s)
        \<and> requests_of (handleSubmit env r s) =
            [streamChat_request (js_trim (input r))
               (if truthy_str (conversationId r) then conversationId r else None)])
   \<and> (js_trim (input r) \<noteq> [] \<and> \<not> isLoading r
       \<and> (\<forall>e \<in> set (events_of (fst (streamChat env (js_trim (input r))
                 (if truthy_str (conversationId r) then conversationId r else None)))).
             ev_type e \<noteq> ''interrupt'')
      \<longrightarrow> (\<exists>s'. state_of (handleSubmit env r s) = Some s'
             \<and> interruptData s' = None \<and> isLoading s' = False))"
proof (intro conjI impI)
  assume "js_trim (input r) = [] \<or> isLoading r"
  then show "handleSubmit env r s = Returned s []"
    by (auto simp: handleSubmit_def)
next
  assume a: "js_trim (input r) \<noteq> [] \<and> \<not> isLoading r"
  then show "\<not> is_Threw (handleSubmit env r s)"
    by (simp add: handleSubmit_accepted Let_def)
  from a show "requests_of (handleSubmit env r s) =
            [streamChat_request (js_trim (input r))
               (if truthy_str (conversationId r) then conversationId r else None)]"
    by (simp add: handleSubmit_accepted Let_def)
next
  assume a: "js_trim (input r) \<noteq> [] \<and> \<not> isLoading r
       \<and> (\<forall>e \<in> set (events_of (fst (streamChat env (js_trim (input r))
                 (if truthy_str (conversationId r) then conversationId r else None)))).
             ev_type e \<noteq> ''interrupt'')"
  then have quiet: "\<forall>e \<in> set (events_of (fst (streamChat env (js_trim (input r))
                 (if truthy_str (conversationId r) then conversationId r else None)))).
             ev_type e \<noteq> ''interrupt''" by simp
  from a show "\<exists>s'. state_of (handleSubmit env r s) = Some s'
             \<and> interruptData s' = None \<and> isLoading s' = False"
    by (cases "snd (streamChat env (js_trim (input r))
                 (if truthy_str (conversationId r) then conversationId r else None))")
       (simp_all add: handleSubmit_accepted Let_def addMessage_def
          fold_handleStreamEvent_interruptData [OF quiet])
qed


text \<open>A submission while loading, one of an input that is only white space (a no-break
  space, a space and a line separator), and one while an answer is awaited.\<close>

theorem submit_is_ignored_only_when_loading_or_blank_witness:
  "(let estep = (plain_event ''step'')\<lparr>ev_step := Some ''Analyzing'',
                                         ev_content := Some ''Looking at options''\<rparr>;
        env = ascii_platform
                (\<lambda>p. if p = ''{\"type\":\"step\",\"step\":\"Analyzing\",\"content\":\"Looking at options\"}''
                     then Some estep else None)
                (\<lambda>q. Some (ok_response
                   [''data: {\"type\":\"step\",\"step\":\"Analyzing\",\"content\":\"Looking at options\"}\<newline>'']));
        busy = (Home_initial ''Welcome'')\<lparr>input := ''to Kyoto'', isLoading := True\<rparr>;
        blank = (Home_initial ''Welcome'')
                  \<lparr>input := [CHR 0xC2, CHR 0xA0, CHR 0x20, CHR 0xE2, CHR 0x80, CHR 0xA8]\<rparr>;
        s = (Home_initial ''Welcome'')
              \<lparr>input := ''to Kyoto'', conversationId := Some ''c1'',
               interruptData := Some \<lparr>int_type = Some ''question'', int_question = ''When?'',
                 int_field = Some ''season'', int_options = None, int_missing_info = None,
                 int_budget_allocation = JUndefined\<rparr>\<rparr>
    in handleSubmit env busy busy = Returned busy []
     \<and> handleSubmit env blank blank = Returned blank []
     \<and> requests_of (handleSubmit env s s) =
         [\<lparr>url = ''/chat/stream'',
           payload = JObj [(''message'', JStr ''to Kyoto''), (''conversation_id'', JStr ''c1'')]\<rparr>]
     \<and> map_option (\<lambda>s'. (interruptData s', isLoading s')) (state_of (handleSubmit env s s))
         = Some (None, False))"
proof -
  define estep where "estep = (plain_event ''step'')\<lparr>ev_step := Some ''Analyzing'',
                                         ev_content := Some ''Looking at options''\<rparr>"
  define env where "env = ascii_platform
                (\<lambda>p. if p = ''{\"type\":\"step\",\"step\":\"Analyzing\",\"content\":\"Looking at options\"}''
                     then Some estep else None)
                (\<lambda>q. Some (ok_response
                   [''data: {\"type\":\"step\",\"step\":\"Analyzing\",\"content\":\"Looking at options\"}\<newline>'']))"
  define busy where "busy = (Home_initial ''Welcome'')\<lparr>input := ''to Kyoto'', isLoading := True\<rparr>"
  define blank where "blank = (Home_initial ''Welcome'')
                  \<lparr>input := [CHR 0xC2, CHR 0xA0, CHR 0x20, CHR 0xE2, CHR 0x80, CHR 0xA8]\<rparr>"
  define s where "s = (Home_initial ''Welcome'')
              \<lparr>input := ''to Kyoto'', conversationId := Some ''c1'',
               interruptData := Some \<lparr>int_type = Some ''question'', int_question = ''When?'',
                 int_field = Some ''season'', int_options = None, int_missing_info = None,
                 int_budget_allocation = JUndefined\<rparr>\<rparr>"
  have gen: "events_of (fst (streamChat env m c)) = [estep]" for m c
    by (simp add: streamChat_def env_def ascii_platform_def ok_response_def
        streamChat_response_def Let_def startsWith_def events_of_simps)
  have ty: "ev_type estep = ''step''" by (simp add: estep_def plain_event_def)
  have st: "js_trim (input s) = ''to Kyoto''" "\<not> isLoading s" "conversationId s = Some ''c1''"
    by (simp_all add: s_def Home_initial_def js_trim_to_Kyoto js_trim_hi)
  have h0: "js_trim (input busy) = [] \<or> isLoading busy" by (simp add: busy_def)
  have hb: "js_trim (input blank) = [] \<or> isLoading blank"
    by (simp add: blank_def js_trim_nbsp)
  have h1: "js_trim (input s) \<noteq> [] \<and> \<not> isLoading s
       \<and> (\<forall>e \<in> set (events_of (fst (streamChat env (js_trim (input s))
                 (if truthy_str (conversationId s) then conversationId s else None)))).
             ev_type e \<noteq> ''interrupt'')"
    by (simp add: gen ty st)
  from submit_is_ignored_only_when_loading_or_blank [of busy env busy] h0
  have 1: "handleSubmit env busy busy = Returned busy []" by blast
  from submit_is_ignored_only_when_loading_or_blank [of blank env blank] hb
  have 0: "handleSubmit env blank blank = Returned blank []" by blast
  from submit_is_ignored_only_when_loading_or_blank [of s env s] h1
  have 2: "requests_of (handleSubmit env s s) =
         [\<lparr>url = ''/chat/stream'',
           payload = JObj [(''message'', JStr ''to Kyoto''), (''conversation_id'', JStr ''c1'')]\<rparr>]"
    and 3: "map_option (\<lambda>s'. (interruptData s', isLoading s')) (state_of (handleSubmit env s s))
         = Some (None, False)"
    by (auto simp: st streamChat_request_def)
  from 0 1 2 3 show ?thesis
    unfolding Let_def estep_def [symmetric] env_def [symmetric] s_def [symmetric]
      busy_def [symmetric] blank_def [symmetric]
    by blast
qed

text \<open>
  Claim C1 says that an identifier, once bound, is never changed by a later event of the
  same stream. The guard of line 139 reads the \<open>conversationId\<close> of the rendering in
  which the running \<open>handleSubmit\<close> was created, which stays \<open>null\<close> for the whole of a
  first stream. On a fresh page, a stream whose first event carries the identifier \<open>a\<close>
  and whose second carries \<open>b\<close> binds \<open>a\<close> and then rebinds \<open>b\<close>.
\<close>

theorem later_identifier_in_same_stream_rebinds:
  "(let ea = (plain_event ''system'')\<lparr>ev_content := Some ''Hello'',
                                        ev_conversation_id := Some ''a''\<rparr>;
        eb = (plain_event ''message'')\<lparr>ev_content := Some ''Hi'',
                                         ev_conversation_id := Some ''b''\<rparr>;
        env = ascii_platform
                (\<lambda>p. if p = ''{\"type\":\"system\",\"content\":\"Hello\",\"conversation_id\":\"a\"}''
                     then Some ea
                     else if p = ''{\"type\":\"message\",\"content\":\"Hi\",\"conversation_id\":\"b\"}''
                     then Some eb else None)
                (\<lambda>q. Some (ok_response
                   [''data: {\"type\":\"system\",\"content\":\"Hello\",\"conversation_id\":\"a\"}\<newline>data: {\"type\":\"message\",\"content\":\"Hi\",\"conversation_id\":\"b\"}\<newline>'']));
        s = (Home_initial ''Welcome'')\<lparr>input := ''hi''\<rparr>
    in conversationId s = None
     \<and> conversationId (handleStreamEvent s ea s) = Some ''a''
     \<and> conversationId (handleStreamEvent s eb (handleStreamEvent s ea s)) = Some ''b''
     \<and> events_of (fst (streamChat env ''hi'' None)) = [ea, eb]
     \<and> map_option conversationId (state_of (submitMessage env s)) = Some (Some ''b''))"
  by (simp add: Let_def submitMessage_def handleSubmit_def handleStreamEvent_def addMessage_def
      Home_initial_def plain_event_def js_trim_to_Kyoto js_trim_hi streamChat_def
      ascii_platform_def ok_response_def streamChat_response_def startsWith_def
      events_of_simps)

end
